theory Spec2Isabelle
  imports Main "HOL-Library.AList"
begin

section \<open>Keystone telemetry: data model\<close>

text \<open>
  The repository holds several generations of the telemetry reporter
  \<^verbatim>\<open>sendTelemetryEvent\<close>. Three of them are modelled here, under the names
  \<^item> \<open>sendTelemetryEvent_prisma\<close>: \<^verbatim>\<open>packages/keystone/src/lib/telemetry/index.ts\<close>,
    lines 6-47 (arguments \<open>eventType, cwd, dbProvider, prismaSchema\<close>);
  \<^item> \<open>sendTelemetryEvent_legacy\<close>: the same file, lines 84-124 (arguments
    \<open>event, environment, cwd, prismaSchema\<close>);
  \<^item> \<open>sendTelemetryEvent_keystone\<close>: \<^verbatim>\<open>unnamed/part_000\<close>, lines 69-112, with the
    module initialisation of lines 55-67.

  JavaScript values that end up in a payload are values of \<open>jsval\<close>; an object
  is an association list in insertion order. A thrown exception is a value of
  \<open>error\<close>; a computation that may throw returns \<open>error + 'a\<close>.
\<close>

datatype jsval =
    JUndefined
  | JNull
  | JBool bool
  | JNum int
  | JStr string
  | JArr "jsval list"
  | JObj "(string \<times> jsval) list"

type_synonym obj = "(string \<times> jsval) list"

datatype error = Error string | TypeError string

text \<open>JavaScript truthiness (numbers are integers here, so there is no NaN).\<close>

fun truthy :: "jsval \<Rightarrow> bool" where
  "truthy JUndefined = False"
| "truthy JNull = False"
| "truthy (JBool b) = b"
| "truthy (JNum n) = (n \<noteq> 0)"
| "truthy (JStr s) = (s \<noteq> [])"
| "truthy (JArr xs) = True"
| "truthy (JObj kvs) = True"

text \<open>
  An entry of \<^verbatim>\<open>process.env\<close> is a string or \<^verbatim>\<open>undefined\<close>. \<open>js_or a b\<close> is
  \<^verbatim>\<open>a || b\<close> on such values: \<open>a\<close> when it is a non-empty string, \<open>b\<close> otherwise.
\<close>

definition js_or :: "string option \<Rightarrow> string option \<Rightarrow> string option" where
  "js_or a b = (case a of None \<Rightarrow> b | Some s \<Rightarrow> if s = [] then b else Some s)"

definition opt_str :: "string option \<Rightarrow> jsval" where
  "opt_str a = (case a of None \<Rightarrow> JUndefined | Some s \<Rightarrow> JStr s)"

text \<open>
  Object spread \<^verbatim>\<open>{...a, ...b, k: v}\<close>: every property is assigned in
  turn; assigning an existing key replaces its value in place, a new key is
  appended.
\<close>

definition spread :: "obj \<Rightarrow> obj \<Rightarrow> obj" where
  "spread source target = fold (\<lambda>(k, v) acc. AList.update k v acc) source target"

subsection \<open>The outside world\<close>

record fetch_init =
  fetch_method :: string
  fetch_headers :: "(string \<times> string) list"
  fetch_body :: string

datatype promise = Fulfilled | Rejected error

datatype fetch_outcome =
    Fetch_throws error
  | Fetch_returns_undefined
  | Fetch_returns promise

datatype logged = Log_string string | Log_object obj | Log_error error

text \<open>
  Calls to the collaborators, in the order they are made. \<open>'a\<close> is the type of
  the second argument of \<^verbatim>\<open>projectInfo\<close> (a Prisma schema string in the older
  dispatcher, a \<^verbatim>\<open>ListSchemaConfig\<close> in the newer one).
\<close>

datatype 'a call =
    Call_machineIdSync
  | Call_projectInfo string "'a option"
  | Call_JSON_stringify obj
  | Call_fetch string fetch_init
  | Call_console_log logged

text \<open>
  What the collaborators answer. \<^verbatim>\<open>machineIdSync\<close>, \<^verbatim>\<open>projectInfo\<close>,
  \<^verbatim>\<open>JSON.stringify\<close> and \<^verbatim>\<open>fetch\<close> may throw. \<^verbatim>\<open>./projectInfo\<close> and
  \<^verbatim>\<open>../config/defaults\<close> are not among the sources, so \<open>projectInfo\<close> and
  \<open>defaults_telemetryEndpoint\<close> are parameters; \<open>sha256_hex t\<close> stands for
  \<^verbatim>\<open>createHash('sha256').update(t).digest('hex')\<close> and \<open>execSync_git cwd\<close> for
  the output of the git command run in \<open>cwd\<close>. \<open>console_log_error err\<close> is what
  \<^verbatim>\<open>console.log(err)\<close> does with a caught value \<open>err\<close>: \<open>None\<close> when it returns,
  \<open>Some e\<close> when it throws \<open>e\<close> (printing a foreign value can throw). Printing
  a string or a payload object is taken to return.
\<close>

record 'a world =
  machineIdSync :: "error + string"
  os_platform :: string
  os_release :: string
  process_version :: string
  projectInfo :: "string \<Rightarrow> 'a option \<Rightarrow> error + obj"
  JSON_stringify :: "obj \<Rightarrow> error + string"
  fetch :: "string \<Rightarrow> fetch_init \<Rightarrow> fetch_outcome"
  defaults_telemetryEndpoint :: string
  sha256_hex :: "string \<Rightarrow> string"
  execSync_git :: "string \<Rightarrow> error + string"
  console_log_error :: "error \<Rightarrow> error option"

text \<open>
  The state of the process: its environment, the calls made so far, and the
  promise rejections that no handler took.
\<close>

record 'a process =
  process_env :: "string \<Rightarrow> string option"
  calls :: "'a call list"
  unhandledRejections :: "error list"

definition emit :: "'a call \<Rightarrow> 'a process \<Rightarrow> 'a process" where
  "emit c st = st\<lparr>calls := calls st @ [c]\<rparr>"

section \<open>deviceInfo\<close>

text \<open>\<^verbatim>\<open>String.prototype.indexOf\<close> for a one-character needle, and \<^verbatim>\<open>substring(0, n)\<close>.\<close>

fun indexOf :: "string \<Rightarrow> char \<Rightarrow> int" where
  "indexOf [] c = - 1"
| "indexOf (x # xs) c =
     (if x = c then 0
      else (let i = indexOf xs c in if i < 0 then - 1 else i + 1))"

definition substring0 :: "string \<Rightarrow> int \<Rightarrow> string" where
  "substring0 s n = take (nat n) s"

text \<open>\<^verbatim>\<open>const locale = () => ...\<close> (index.ts, lines 51-62).\<close>

definition locale_env :: "(string \<Rightarrow> string option) \<Rightarrow> string option" where
  "locale_env env =
     (let localeWithEncoding =
            js_or (js_or (js_or (js_or (env ''LC_ALL'') (env ''LC_MESSAGES''))
                                (env ''LANG''))
                         (env ''LANGUAGE''))
                  (env ''LC_NAME'')
      in case localeWithEncoding of
           None \<Rightarrow> None
         | Some l \<Rightarrow>
             if l = [] then None
             else (let encodingIndex = indexOf l (CHR ''.'')
                   in if encodingIndex > - 1 then Some (substring0 l encodingIndex)
                      else Some l))"

text \<open>\<^verbatim>\<open>deviceInfo()\<close> (index.ts, lines 64-73).\<close>

definition deviceInfo :: "'a world \<Rightarrow> 'a process \<Rightarrow> (error + obj) \<times> 'a process" where
  "deviceInfo w st =
     (let st1 = emit Call_machineIdSync st
      in case machineIdSync w of
           Inl e \<Rightarrow> (Inl e, st1)
         | Inr deviceHash \<Rightarrow>
             (Inr [(''deviceHash'', JStr deviceHash),
                   (''os'', JStr (os_platform w)),
                   (''osVersion'', JStr (os_release w)),
                   (''nodeVersion'', JStr (process_version w)),
                   (''locale'', (case locale_env (process_env st1) of
                                  None \<Rightarrow> JNull | Some l \<Rightarrow> JStr l))],
              st1))"

text \<open>
  The specification's wording of the locale: the first non-empty value of a
  list of variables, cut before its first \<^verbatim>\<open>.\<close>.
\<close>

fun first_nonempty :: "(string \<Rightarrow> string option) \<Rightarrow> string list \<Rightarrow> string option" where
  "first_nonempty env [] = None"
| "first_nonempty env (k # ks) =
     (case env k of
        None \<Rightarrow> first_nonempty env ks
      | Some v \<Rightarrow> if v = [] then first_nonempty env ks else Some v)"

definition strip_encoding :: "string \<Rightarrow> string" where
  "strip_encoding l = takeWhile (\<lambda>c. c \<noteq> CHR ''.'') l"

section \<open>The dispatchers\<close>

text \<open>\<^verbatim>\<open>process.env.X || fallback\<close> where the fallback is a string.\<close>

definition js_or_default :: "string option \<Rightarrow> string \<Rightarrow> string" where
  "js_or_default a d = (case a of None \<Rightarrow> d | Some s \<Rightarrow> if s = [] then d else s)"

text \<open>
  Promise chains. \<^verbatim>\<open>.then()\<close> without handlers passes the state on;
  \<^verbatim>\<open>.then(() => {}, () => {})\<close> and \<^verbatim>\<open>.catch(() => {})\<close> run a handler that
  returns normally, so the promise they return is fulfilled. A chain that
  ends rejected is an unhandled rejection of the process.
\<close>

definition then_none :: "promise \<Rightarrow> promise" where
  "then_none p = p"

definition then_both :: "promise \<Rightarrow> promise" where
  "then_both p = (case p of Fulfilled \<Rightarrow> Fulfilled | Rejected e \<Rightarrow> Fulfilled)"

definition catch_silently :: "promise \<Rightarrow> promise" where
  "catch_silently p = (case p of Fulfilled \<Rightarrow> Fulfilled | Rejected e \<Rightarrow> Fulfilled)"

definition settle :: "promise \<Rightarrow> 'a process \<Rightarrow> 'a process" where
  "settle p st =
     (case p of
        Fulfilled \<Rightarrow> st
      | Rejected e \<Rightarrow> st\<lparr>unhandledRejections := unhandledRejections st @ [e]\<rparr>)"

text \<open>
  The statement \<^verbatim>\<open>fetch(url, {method: 'POST', headers: {...}, body:
  JSON.stringify(eventData)})\<close> followed by its promise chain \<open>chain\<close>. The
  arguments are evaluated first, so a throwing \<^verbatim>\<open>JSON.stringify\<close> leaves
  \<^verbatim>\<open>fetch\<close> uncalled. A \<^verbatim>\<open>fetch\<close> that returns \<^verbatim>\<open>undefined\<close> (a mock without
  implementation) makes \<^verbatim>\<open>.then\<close> throw a TypeError.
\<close>

definition fetch_post ::
  "(promise \<Rightarrow> promise) \<Rightarrow> 'a world \<Rightarrow> string \<Rightarrow> obj \<Rightarrow> 'a process
     \<Rightarrow> (error + unit) \<times> 'a process" where
  "fetch_post chain w url eventData st =
     (let st1 = emit (Call_JSON_stringify eventData) st
      in case JSON_stringify w eventData of
           Inl e \<Rightarrow> (Inl e, st1)
         | Inr body \<Rightarrow>
             (let init = \<lparr>fetch_method = ''POST'',
                          fetch_headers = [(''Content-Type'', ''application/json'')],
                          fetch_body = body\<rparr>;
                  st2 = emit (Call_fetch url init) st1
              in case fetch w url init of
                   Fetch_throws e \<Rightarrow> (Inl e, st2)
                 | Fetch_returns_undefined \<Rightarrow>
                     (Inl (TypeError ''Cannot read properties of undefined''), st2)
                 | Fetch_returns p \<Rightarrow> (Inr (), settle (chain p) st2)))"

text \<open>
  The object literal \<^verbatim>\<open>{...deviceInfo(), ...projectInfo(cwd, lists), dbProvider,
  eventType}\<close> (part_000, lines 80-85; index.ts, lines 17-25), given the two
  collected objects.
\<close>

definition eventData_of :: "obj \<Rightarrow> obj \<Rightarrow> string option \<Rightarrow> string \<Rightarrow> obj" where
  "eventData_of device project dbProvider eventType =
     AList.update ''eventType'' (JStr eventType)
       (AList.update ''dbProvider'' (opt_str dbProvider)
          (spread project (spread device [])))"

subsection \<open>part_000, lines 55-112: the dispatcher with the KEYSTONE variables\<close>

text \<open>
  The module's top-level statements (lines 55-67). \<open>conf\<close> is what
  \<^verbatim>\<open>new Conf()\<close> followed by \<^verbatim>\<open>userConfig.get('telemetry.disabled')\<close> gives
  (lines 55-56): the stored value, or the exception thrown when the store
  cannot be opened or read. The exception ends the evaluation of the module
  before lines 58-67 and reaches the importer.
\<close>

definition module_init :: "error + jsval \<Rightarrow> 'a process \<Rightarrow> (error + unit) \<times> 'a process" where
  "module_init conf st =
     (case conf of
        Inl e \<Rightarrow> (Inl e, st)
      | Inr userTelemetryDisabled \<Rightarrow>
          (let st1 = (if truthy userTelemetryDisabled
                      then st\<lparr>process_env :=
                                (process_env st)(''KEYSTONE_TELEMETRY_DISABLED'' \<mapsto> ''1'')\<rparr>
                      else st)
           in if process_env st1 ''KEYSTONE_TELEMETRY_DISABLED'' = Some ''1''
              then (Inr (),
                    st1\<lparr>process_env :=
                          (process_env st1)(''NEXT_TELEMETRY_DISABLED'' \<mapsto> ''1'',
                                            ''CHECKPOINT_DISABLE'' \<mapsto> ''1'')\<rparr>)
              else (Inr (), st1)))"

text \<open>The body of the \<^verbatim>\<open>try\<close> block (lines 76-108).\<close>

definition sendTelemetryEvent_keystone_try ::
  "'a world \<Rightarrow> string \<Rightarrow> string \<Rightarrow> string option \<Rightarrow> 'a option \<Rightarrow> 'a process
     \<Rightarrow> (error + unit) \<times> 'a process" where
  "sendTelemetryEvent_keystone_try w eventType cwd dbProvider listsConfig st =
     (if process_env st ''KEYSTONE_TELEMETRY_DISABLED'' = Some ''1'' then (Inr (), st)
      else case deviceInfo w st of
        (Inl e, st1) \<Rightarrow> (Inl e, st1)
      | (Inr device, st1) \<Rightarrow>
          (let st2 = emit (Call_projectInfo cwd listsConfig) st1
           in case projectInfo w cwd listsConfig of
                Inl e \<Rightarrow> (Inl e, st2)
              | Inr project \<Rightarrow>
                  (let eventData = eventData_of device project dbProvider eventType;
                       telemetryEndpoint =
                         js_or_default (process_env st2 ''KEYSTONE_TELEMETRY_ENDPOINT'')
                           (defaults_telemetryEndpoint w);
                       telemetryUrl = telemetryEndpoint @ ''/v1/event''
                   in if process_env st2 ''KEYSTONE_TELEMETRY_DEBUG'' = Some ''1''
                      then (Inr (),
                            emit (Call_console_log (Log_object eventData))
                              (emit (Call_console_log
                                       (Log_string (''[Telemetry]: '' @ telemetryUrl))) st2))
                      else fetch_post (\<lambda>p. catch_silently (then_both p)) w
                             telemetryUrl eventData st2)))"

text \<open>The whole function: \<^verbatim>\<open>catch (err)\<close> has an empty body.\<close>

definition sendTelemetryEvent_keystone ::
  "'a world \<Rightarrow> string \<Rightarrow> string \<Rightarrow> string option \<Rightarrow> 'a option \<Rightarrow> 'a process
     \<Rightarrow> (error + unit) \<times> 'a process" where
  "sendTelemetryEvent_keystone w eventType cwd dbProvider listsConfig st =
     (case sendTelemetryEvent_keystone_try w eventType cwd dbProvider listsConfig st of
        (Inl err, st') \<Rightarrow> (Inr (), st')
      | (Inr u, st') \<Rightarrow> (Inr (), st'))"

text \<open>Any number of calls of the dispatcher, one after the other.\<close>

fun sendTelemetryEvents ::
  "'a world \<Rightarrow> (string \<times> string \<times> string option \<times> 'a option) list \<Rightarrow> 'a process
     \<Rightarrow> 'a process" where
  "sendTelemetryEvents w [] st = st"
| "sendTelemetryEvents w ((eventType, cwd, dbProvider, listsConfig) # rest) st =
     sendTelemetryEvents w rest
       (snd (sendTelemetryEvent_keystone w eventType cwd dbProvider listsConfig st))"

subsection \<open>index.ts, lines 6-47: the dispatcher that takes a Prisma schema\<close>

definition sendTelemetryEvent_prisma_try ::
  "string world \<Rightarrow> string \<Rightarrow> string \<Rightarrow> string option \<Rightarrow> string option \<Rightarrow> string process
     \<Rightarrow> (error + unit) \<times> string process" where
  "sendTelemetryEvent_prisma_try w eventType cwd dbProvider prismaSchema st =
     (if process_env st ''TELEMETRY_DISABLED'' = Some ''true'' then (Inr (), st)
      else case deviceInfo w st of
        (Inl e, st1) \<Rightarrow> (Inl e, st1)
      | (Inr device, st1) \<Rightarrow>
          (let st2 = emit (Call_projectInfo cwd prismaSchema) st1
           in case projectInfo w cwd prismaSchema of
                Inl e \<Rightarrow> (Inl e, st2)
              | Inr project \<Rightarrow>
                  (let eventData = eventData_of device project dbProvider eventType;
                       telemetryEndpoint =
                         js_or_default (process_env st2 ''TELEMETRY_ENDPOINT'')
                           (defaults_telemetryEndpoint w)
                   in if process_env st2 ''TELEMETRY_DEBUG'' = Some ''1''
                      then (Inr (), emit (Call_console_log (Log_object eventData)) st2)
                      else fetch_post (\<lambda>p. catch_silently (then_none p)) w
                             (telemetryEndpoint @ ''/event'') eventData st2)))"

text \<open>
  The whole function: \<^verbatim>\<open>catch (err) { console.log(err); }\<close> (lines 43-46).
  The call of \<^verbatim>\<open>console.log\<close> stands outside the \<^verbatim>\<open>try\<close>: what it throws reaches
  the caller.
\<close>

definition sendTelemetryEvent_prisma ::
  "string world \<Rightarrow> string \<Rightarrow> string \<Rightarrow> string option \<Rightarrow> string option \<Rightarrow> string process
     \<Rightarrow> (error + unit) \<times> string process" where
  "sendTelemetryEvent_prisma w eventType cwd dbProvider prismaSchema st =
     (case sendTelemetryEvent_prisma_try w eventType cwd dbProvider prismaSchema st of
        (Inl err, st') \<Rightarrow>
          (let st'' = emit (Call_console_log (Log_error err)) st'
           in case console_log_error w err of
                None \<Rightarrow> (Inr (), st'')
              | Some e \<Rightarrow> (Inl e, st''))
      | (Inr u, st') \<Rightarrow> (Inr (), st'))"

subsection \<open>index.ts, lines 80-124: the legacy dispatcher\<close>

text \<open>\<^verbatim>\<open>hashText\<close> (lines 80-82).\<close>

definition hashText :: "'a world \<Rightarrow> string \<Rightarrow> string" where
  "hashText w text = sha256_hex w text"

text \<open>The object literal of lines 95-106, given the machine id.\<close>

definition eventData_legacy ::
  "'a world \<Rightarrow> (string \<Rightarrow> string option) \<Rightarrow> string \<Rightarrow> string \<Rightarrow> string \<Rightarrow> string option
     \<Rightarrow> string \<Rightarrow> obj" where
  "eventData_legacy w env event environment cwd prismaSchema device =
     [(''device'', JStr device),
      (''project'', JStr (js_or_default (env ''TELEMETRY_PROJECT'') (hashText w cwd))),
      (''schema'', (case prismaSchema of
                      None \<Rightarrow> JUndefined
                    | Some s \<Rightarrow> if s = [] then JStr [] else JStr (hashText w s))),
      (''keystoneVersion'', opt_str (env ''npm_package_dependencies__keystone_next_keystone'')),
      (''environment'', JStr environment),
      (''os'', JStr (os_platform w)),
      (''osLanguage'', opt_str (js_or (js_or (js_or (env ''LC_ALL'') (env ''LC_MESSAGES''))
                                              (env ''LANG''))
                                       (env ''LANGUAGE''))),
      (''event'', JStr event)]"

definition sendTelemetryEvent_legacy_try ::
  "'a world \<Rightarrow> string \<Rightarrow> string \<Rightarrow> string \<Rightarrow> string option \<Rightarrow> 'a process
     \<Rightarrow> (error + unit) \<times> 'a process" where
  "sendTelemetryEvent_legacy_try w event environment cwd prismaSchema st =
     (if process_env st ''TELEMETRY_DISABLED'' = Some ''true'' then (Inr (), st)
      else (let st1 = emit Call_machineIdSync st
            in case machineIdSync w of
                 Inl e \<Rightarrow> (Inl e, st1)
               | Inr device \<Rightarrow>
                   (let eventData = eventData_legacy w (process_env st1) event environment
                                      cwd prismaSchema device;
                        telemetryEndpoint =
                          js_or_default (process_env st1 ''TELEMETRY_ENDPOINT'')
                            (defaults_telemetryEndpoint w)
                    in fetch_post (\<lambda>p. catch_silently (then_none p)) w
                         (telemetryEndpoint @ ''/event'') eventData st1)))"

definition sendTelemetryEvent_legacy ::
  "'a world \<Rightarrow> string \<Rightarrow> string \<Rightarrow> string \<Rightarrow> string option \<Rightarrow> 'a process
     \<Rightarrow> (error + unit) \<times> 'a process" where
  "sendTelemetryEvent_legacy w event environment cwd prismaSchema st =
     (case sendTelemetryEvent_legacy_try w event environment cwd prismaSchema st of
        (Inl err, st') \<Rightarrow> (Inr (), st')
      | (Inr u, st') \<Rightarrow> (Inr (), st'))"

section \<open>projectInfo\<close>

text \<open>
  Modelled from the spec: the module \<^verbatim>\<open>./projectInfo\<close> is not among the sources
  (only its test is, index.ts lines 355-383). Section 4.3 of the spec:
  the git origin is normalised "by stripping a trailing newline, stripping a
  credentials/protocol prefix (\<^verbatim>\<open>git@\<close>, \<^verbatim>\<open>https://\<close>, \<^verbatim>\<open>http://\<close>, optional
  \<^verbatim>\<open>user@\<close>) down to host/path". This is the first step. Section 8 (3) asks
  that a trailing newline in the output never changes the hash, so every
  newline at the end is stripped.
\<close>

definition strip_trailing_newline :: "string \<Rightarrow> string" where
  "strip_trailing_newline s = rev (dropWhile (\<lambda>c. c = CHR 0x0A) (rev s))"

text \<open>
  Modelled from the spec: \<^verbatim>\<open>./projectInfo\<close> is missing; stripping a given
  protocol prefix, \<open>None\<close> when the string does not start with it.
\<close>

definition drop_prefix :: "string \<Rightarrow> string \<Rightarrow> string option" where
  "drop_prefix p s = (if take (length p) s = p then Some (drop (length p) s) else None)"

text \<open>
  Modelled from the spec: \<^verbatim>\<open>./projectInfo\<close> is missing; the "optional \<^verbatim>\<open>user@\<close>"
  of a web URL, which stands before the first \<^verbatim>\<open>/\<close>.
\<close>

definition strip_user :: "string \<Rightarrow> string" where
  "strip_user s =
     (if CHR ''@'' \<in> set (takeWhile (\<lambda>c. c \<noteq> CHR ''/'') s)
      then tl (dropWhile (\<lambda>c. c \<noteq> CHR ''@'') s)
      else s)"

text \<open>
  Modelled from the spec: \<^verbatim>\<open>./projectInfo\<close> is missing; the SSH form
  \<^verbatim>\<open>git@host:path\<close> "must normalize to the identical host/path string", so
  its first \<^verbatim>\<open>:\<close> becomes \<^verbatim>\<open>/\<close>.
\<close>

definition ssh_path :: "string \<Rightarrow> string" where
  "ssh_path s =
     (case dropWhile (\<lambda>c. c \<noteq> CHR '':'') s of
        [] \<Rightarrow> s
      | colon # path \<Rightarrow> takeWhile (\<lambda>c. c \<noteq> CHR '':'') s @ CHR ''/'' # path)"

text \<open>
  Modelled from the spec: \<^verbatim>\<open>./projectInfo\<close> is missing; the normalisation of
  section 4.3 as a whole.
\<close>

definition normalizeGitOrigin :: "string \<Rightarrow> string" where
  "normalizeGitOrigin raw =
     (let s = strip_trailing_newline raw
      in case drop_prefix ''git@'' s of
           Some r \<Rightarrow> ssh_path r
         | None \<Rightarrow>
             (case drop_prefix ''https://'' s of
                Some r \<Rightarrow> strip_user r
              | None \<Rightarrow>
                  (case drop_prefix ''http://'' s of
                     Some r \<Rightarrow> strip_user r
                   | None \<Rightarrow> s)))"

text \<open>
  Modelled from the spec: \<^verbatim>\<open>./projectInfo\<close> is missing; "apply a one-way
  cryptographic hash. If the command fails or returns an empty string, the
  field is null", for a given outcome of the git command. Output that is
  empty once its trailing newlines are stripped counts as empty.
\<close>

definition gitOriginHash_of :: "'a world \<Rightarrow> error + string \<Rightarrow> jsval" where
  "gitOriginHash_of w out =
     (case out of
        Inl e \<Rightarrow> JNull
      | Inr raw \<Rightarrow>
          if strip_trailing_newline raw = [] then JNull
          else JStr (sha256_hex w (normalizeGitOrigin raw)))"

text \<open>
  Modelled from the spec: \<^verbatim>\<open>./projectInfo\<close> is missing; its two hashed fields,
  under the names the test gives them (index.ts, lines 196-201). The git
  command is run in \<open>cwd\<close>. The working-directory hash is "the same one-way
  hash function applied directly to the absolute path string". The package
  versions and the schema summary are left out.
\<close>

definition projectInfo_spec :: "'a world \<Rightarrow> string \<Rightarrow> obj" where
  "projectInfo_spec w cwd =
     [(''gitOriginHash'', gitOriginHash_of w (execSync_git w cwd)),
      (''pathHash'', JStr (sha256_hex w cwd))]"

text \<open>
  The four forms of a remote URL for one host and path, and the host, path
  and user names for which they are four readings of the same remote.
\<close>

definition remote_forms :: "string \<Rightarrow> string \<Rightarrow> string \<Rightarrow> string list" where
  "remote_forms user host path =
     [''git@'' @ host @ '':'' @ path,
      ''https://'' @ host @ ''/'' @ path,
      ''http://'' @ host @ ''/'' @ path,
      ''https://'' @ user @ ''@'' @ host @ ''/'' @ path]"

definition well_formed_remote :: "string \<Rightarrow> string \<Rightarrow> string \<Rightarrow> bool" where
  "well_formed_remote user host path =
     (CHR ''@'' \<notin> set host \<and> CHR '':'' \<notin> set host \<and> CHR ''/'' \<notin> set host
      \<and> CHR 0x0A \<notin> set host \<and> host \<noteq> []
      \<and> CHR ''@'' \<notin> set user \<and> CHR ''/'' \<notin> set user
      \<and> (path = [] \<or> last path \<noteq> CHR 0x0A))"

section \<open>Sample worlds\<close>

text \<open>
  The collaborators as the repository's tests set them up (index.ts, lines
  248-283): the machine id is \<^verbatim>\<open>device-hashed\<close>, the platform \<^verbatim>\<open>keystone-os\<close>, the
  hash of \<open>t\<close> is \<open>t\<close> followed by \<^verbatim>\<open>-hashed\<close>, git prints \<^verbatim>\<open>git@origin\<close>, and
  \<^verbatim>\<open>fetch\<close> resolves. \<^verbatim>\<open>projectInfo\<close> answers with the two hashed fields the
  test expects (lines 217-225). The text \<^verbatim>\<open>JSON.stringify\<close> returns is a
  placeholder: the call records the object it was given.
\<close>

definition test_world :: "'a world" where
  "test_world =
     \<lparr>machineIdSync = Inr ''device-hashed'',
      os_platform = ''keystone-os'',
      os_release = ''0.0.1'',
      process_version = ''v14'',
      projectInfo = (\<lambda>cwd listsConfig. Inr [(''gitOriginHash'', JStr ''origin-hashed''),
                                        (''pathHash'', JStr (cwd @ ''-hashed''))]),
      JSON_stringify = (\<lambda>eventData. Inr ''<json>''),
      fetch = (\<lambda>url init. Fetch_returns Fulfilled),
      defaults_telemetryEndpoint = ''https://telemetry.keystonejs.com'',
      sha256_hex = (\<lambda>t. t @ ''-hashed''),
      execSync_git = (\<lambda>cwd. Inr ''git@origin''),
      console_log_error = (\<lambda>err. None)\<rparr>"



text \<open>A world whose \<^verbatim>\<open>projectInfo\<close> returns fields named like the call's own.\<close>

definition colliding_world :: "'a world" where
  "colliding_world =
     test_world\<lparr>projectInfo := (\<lambda>cwd listsConfig.
        Inr [(''dbProvider'', JStr ''collected''),
             (''pathHash'', JStr (cwd @ ''-hashed'')),
             (''eventType'', JStr ''collected'')])\<rparr>"

definition process_start :: "(string \<Rightarrow> string option) \<Rightarrow> 'a process" where
  "process_start env = \<lparr>process_env = env, calls = [], unhandledRejections = []\<rparr>"

text \<open>The calls made between two states of one run.\<close>

definition calls_made :: "'a process \<Rightarrow> 'a process \<Rightarrow> 'a call list" where
  "calls_made st st' = drop (length (calls st)) (calls st')"

text \<open>A \<^verbatim>\<open>ListSchemaConfig\<close> reduced to list names and field names, for examples.\<close>

type_synonym listSchemaConfig = "(string \<times> string list) list"

section \<open>Properties of deviceInfo\<close>

lemma indexOf_ge: "- 1 \<le> indexOf s c"
  by (induction s) (auto simp: Let_def)

lemma indexOf_absent: "indexOf s c < 0 \<longleftrightarrow> c \<notin> set s"
proof (induction s)
  case Nil
  then show ?case by simp
next
  case (Cons x xs)
  from indexOf_ge [of xs c] Cons.IH show ?case
    by (auto simp: Let_def)
qed

lemma take_indexOf:
  "c \<in> set s \<Longrightarrow> take (nat (indexOf s c)) s = takeWhile (\<lambda>x. x \<noteq> c) s"
proof (induction s)
  case Nil
  then show ?case by simp
next
  case (Cons x xs)
  show ?case
  proof (cases "x = c")
    case True
    then show ?thesis by simp
  next
    case False
    with Cons.prems have in_xs: "c \<in> set xs" by simp
    then have nonneg: "0 \<le> indexOf xs c"
      using indexOf_absent [of xs c] by simp
    then have "nat (indexOf xs c + 1) = Suc (nat (indexOf xs c))" by simp
    with False nonneg Cons.IH [OF in_xs] show ?thesis
      by (simp add: Let_def)
  qed
qed

lemma strip_by_index:
  "(if indexOf l (CHR ''.'') > - 1 then substring0 l (indexOf l (CHR ''.'')) else l)
     = strip_encoding l"
proof (cases "CHR ''.'' \<in> set l")
  case True
  then have "0 \<le> indexOf l (CHR ''.'')"
    using indexOf_absent [of l "CHR ''.''"] by simp
  with True show ?thesis
    by (simp add: substring0_def strip_encoding_def take_indexOf)
next
  case False
  then have idx: "indexOf l (CHR ''.'') < 0"
    by (simp add: indexOf_absent)
  from False have tw: "takeWhile (\<lambda>c. c \<noteq> CHR ''.'') l = l"
    by auto
  from idx show ?thesis
    by (simp add: strip_encoding_def tw)
qed

lemma js_or_chain:
  "js_or (js_or (js_or (js_or (env a) (env b)) (env c)) (env d)) (env e)
     = (case first_nonempty env [a, b, c, d] of
          Some v \<Rightarrow> Some v
        | None \<Rightarrow> env e)"
  by (simp add: js_or_def split: option.splits)

lemma first_nonempty_nonempty: "first_nonempty env ks = Some v \<Longrightarrow> v \<noteq> []"
  by (induction ks) (auto split: option.splits if_splits)

lemma strip_found:
  "- 1 < indexOf l (CHR ''.'') \<Longrightarrow> substring0 l (indexOf l (CHR ''.'')) = strip_encoding l"
  using strip_by_index [of l] by simp

lemma strip_not_found:
  "\<not> - 1 < indexOf l (CHR ''.'') \<Longrightarrow> strip_encoding l = l"
  using strip_by_index [of l] by simp

lemma locale_env_eq:
  "locale_env env =
     map_option strip_encoding
       (first_nonempty env [''LC_ALL'', ''LC_MESSAGES'', ''LANG'', ''LANGUAGE'', ''LC_NAME''])"
proof -
  have chain: "js_or (js_or (js_or (js_or (env ''LC_ALL'') (env ''LC_MESSAGES''))
                                (env ''LANG''))
                         (env ''LANGUAGE''))
                  (env ''LC_NAME'')
        = (case first_nonempty env [''LC_ALL'', ''LC_MESSAGES'', ''LANG'', ''LANGUAGE''] of
          Some v \<Rightarrow> Some v
        | None \<Rightarrow> env ''LC_NAME'')"
    by (rule js_or_chain)
  show ?thesis
  proof (cases "first_nonempty env [''LC_ALL'', ''LC_MESSAGES'', ''LANG'', ''LANGUAGE'']")
    case None
    then have five: "first_nonempty env [''LC_ALL'', ''LC_MESSAGES'', ''LANG'', ''LANGUAGE'', ''LC_NAME'']
        = (case env ''LC_NAME'' of None \<Rightarrow> None | Some v \<Rightarrow> if v = [] then None else Some v)"
      by (simp split: option.splits if_splits)
    show ?thesis
      unfolding locale_env_def chain None five
      by (simp add: Let_def strip_found strip_not_found split: option.splits)
  next
    case (Some v)
    then have ne: "v \<noteq> []" by (rule first_nonempty_nonempty)
    from Some have five: "first_nonempty env [''LC_ALL'', ''LC_MESSAGES'', ''LANG'', ''LANGUAGE'', ''LC_NAME'']
        = Some v"
      by (simp split: option.splits if_splits)
    show ?thesis
      unfolding locale_env_def chain Some five
      using ne by (simp add: Let_def strip_found strip_not_found)
  qed
qed

section \<open>Properties of the dispatchers\<close>

lemma emit_simps [simp]:
  "calls (emit c st) = calls st @ [c]"
  "process_env (emit c st) = process_env st"
  "unhandledRejections (emit c st) = unhandledRejections st"
  by (simp_all add: emit_def)

lemma settle_chain_simps [simp]:
  "settle (catch_silently p) st = st"
  by (simp add: settle_def catch_silently_def split: promise.splits)

lemma calls_made_append [simp]: "calls st' = calls st @ xs \<Longrightarrow> calls_made st st' = xs"
  by (simp add: calls_made_def)

lemma fetch_post_result:
  "fetch_post (\<lambda>p. catch_silently (f p)) w url eventData st =
     (case JSON_stringify w eventData of
        Inl e \<Rightarrow> (Inl e, emit (Call_JSON_stringify eventData) st)
      | Inr body \<Rightarrow>
          (case fetch w url \<lparr>fetch_method = ''POST'',
                  fetch_headers = [(''Content-Type'', ''application/json'')],
                  fetch_body = body\<rparr> of
             Fetch_throws e \<Rightarrow> Inl e
           | Fetch_returns_undefined \<Rightarrow> Inl (TypeError ''Cannot read properties of undefined'')
           | Fetch_returns p \<Rightarrow> Inr (),
           emit (Call_fetch url \<lparr>fetch_method = ''POST'',
                  fetch_headers = [(''Content-Type'', ''application/json'')],
                  fetch_body = body\<rparr>) (emit (Call_JSON_stringify eventData) st)))"
  by (simp add: fetch_post_def Let_def split: sum.splits fetch_outcome.splits)

lemma keystone_state:
  "snd (sendTelemetryEvent_keystone w eventType cwd dbProvider listsConfig st) =
     st\<lparr>calls := calls st @
       (if process_env st ''KEYSTONE_TELEMETRY_DISABLED'' = Some ''1'' then []
        else Call_machineIdSync #
          (case fst (deviceInfo w st) of
             Inl e \<Rightarrow> []
           | Inr device \<Rightarrow> Call_projectInfo cwd listsConfig #
              (case projectInfo w cwd listsConfig of
                 Inl e \<Rightarrow> []
               | Inr project \<Rightarrow>
                  (if process_env st ''KEYSTONE_TELEMETRY_DEBUG'' = Some ''1''
                   then [Call_console_log (Log_string (''[Telemetry]: '' @
                            js_or_default (process_env st ''KEYSTONE_TELEMETRY_ENDPOINT'')
                              (defaults_telemetryEndpoint w) @ ''/v1/event'')),
                         Call_console_log (Log_object
                            (eventData_of device project dbProvider eventType))]
                   else Call_JSON_stringify (eventData_of device project dbProvider eventType) #
                     (case JSON_stringify w (eventData_of device project dbProvider eventType) of
                        Inl e \<Rightarrow> []
                      | Inr body \<Rightarrow>
                          [Call_fetch (js_or_default (process_env st ''KEYSTONE_TELEMETRY_ENDPOINT'')
                              (defaults_telemetryEndpoint w) @ ''/v1/event'')
                             \<lparr>fetch_method = ''POST'',
                              fetch_headers = [(''Content-Type'', ''application/json'')],
                              fetch_body = body\<rparr>])))))\<rparr>"
  apply (simp add: sendTelemetryEvent_keystone_def sendTelemetryEvent_keystone_try_def
      fetch_post_result Let_def split: prod.splits sum.splits)
  apply (auto simp: deviceInfo_def Let_def emit_def split: sum.splits)
  done


lemma prisma_catch_state:
  "snd (sendTelemetryEvent_prisma w eventType cwd dbProvider prismaSchema st) =
     (case sendTelemetryEvent_prisma_try w eventType cwd dbProvider prismaSchema st of
        (Inl err, st') \<Rightarrow> emit (Call_console_log (Log_error err)) st'
      | (Inr u, st') \<Rightarrow> st')"
  by (simp add: sendTelemetryEvent_prisma_def Let_def split: prod.splits sum.splits option.splits)

lemma prisma_state:
  "snd (sendTelemetryEvent_prisma w eventType cwd dbProvider prismaSchema st) =
     st\<lparr>calls := calls st @
       (if process_env st ''TELEMETRY_DISABLED'' = Some ''true'' then []
        else Call_machineIdSync #
          (case fst (deviceInfo w st) of
             Inl e \<Rightarrow> [Call_console_log (Log_error e)]
           | Inr device \<Rightarrow> Call_projectInfo cwd prismaSchema #
              (case projectInfo w cwd prismaSchema of
                 Inl e \<Rightarrow> [Call_console_log (Log_error e)]
               | Inr project \<Rightarrow>
                  (if process_env st ''TELEMETRY_DEBUG'' = Some ''1''
                   then [Call_console_log (Log_object
                            (eventData_of device project dbProvider eventType))]
                   else Call_JSON_stringify (eventData_of device project dbProvider eventType) #
                     (case JSON_stringify w (eventData_of device project dbProvider eventType) of
                        Inl e \<Rightarrow> [Call_console_log (Log_error e)]
                      | Inr body \<Rightarrow>
                          Call_fetch (js_or_default (process_env st ''TELEMETRY_ENDPOINT'')
                              (defaults_telemetryEndpoint w) @ ''/event'')
                             \<lparr>fetch_method = ''POST'',
                              fetch_headers = [(''Content-Type'', ''application/json'')],
                              fetch_body = body\<rparr> #
                          (case fetch w (js_or_default (process_env st ''TELEMETRY_ENDPOINT'')
                              (defaults_telemetryEndpoint w) @ ''/event'')
                             \<lparr>fetch_method = ''POST'',
                              fetch_headers = [(''Content-Type'', ''application/json'')],
                              fetch_body = body\<rparr> of
                             Fetch_throws e \<Rightarrow> [Call_console_log (Log_error e)]
                           | Fetch_returns_undefined \<Rightarrow>
                               [Call_console_log (Log_error
                                  (TypeError ''Cannot read properties of undefined''))]
                           | Fetch_returns p \<Rightarrow> []))))))\<rparr>"
  apply (simp add: prisma_catch_state sendTelemetryEvent_prisma_try_def
      fetch_post_result Let_def split: prod.splits sum.splits)
  apply (auto simp: deviceInfo_def Let_def emit_def split: sum.splits fetch_outcome.splits)
  done

lemma legacy_state:
  "snd (sendTelemetryEvent_legacy w event environment cwd prismaSchema st) =
     st\<lparr>calls := calls st @
       (if process_env st ''TELEMETRY_DISABLED'' = Some ''true'' then []
        else Call_machineIdSync #
          (case machineIdSync w of
             Inl e \<Rightarrow> []
           | Inr device \<Rightarrow>
               Call_JSON_stringify
                 (eventData_legacy w (process_env st) event environment cwd prismaSchema device) #
               (case JSON_stringify w
                  (eventData_legacy w (process_env st) event environment cwd prismaSchema device) of
                  Inl e \<Rightarrow> []
                | Inr body \<Rightarrow>
                    [Call_fetch (js_or_default (process_env st ''TELEMETRY_ENDPOINT'')
                        (defaults_telemetryEndpoint w) @ ''/event'')
                       \<lparr>fetch_method = ''POST'',
                        fetch_headers = [(''Content-Type'', ''application/json'')],
                        fetch_body = body\<rparr>])))\<rparr>"
  by (simp add: sendTelemetryEvent_legacy_def sendTelemetryEvent_legacy_try_def
      fetch_post_result Let_def split: prod.splits sum.splits)




lemma keystone_disabled:
  "process_env st ''KEYSTONE_TELEMETRY_DISABLED'' = Some ''1'' \<Longrightarrow>
     sendTelemetryEvent_keystone w eventType cwd dbProvider listsConfig st = (Inr (), st)"
  by (simp add: sendTelemetryEvent_keystone_def sendTelemetryEvent_keystone_try_def)

lemma prisma_disabled:
  "process_env st ''TELEMETRY_DISABLED'' = Some ''true'' \<Longrightarrow>
     sendTelemetryEvent_prisma w eventType cwd dbProvider prismaSchema st = (Inr (), st)"
  by (simp add: sendTelemetryEvent_prisma_def sendTelemetryEvent_prisma_try_def)

lemma calls_made_update [simp]: "calls_made st (st\<lparr>calls := calls st @ xs\<rparr>) = xs"
  by (simp add: calls_made_def)

lemma deviceInfo_result:
  "fst (deviceInfo w st) =
     (case machineIdSync w of
        Inl e \<Rightarrow> Inl e
      | Inr deviceHash \<Rightarrow>
          Inr [(''deviceHash'', JStr deviceHash),
               (''os'', JStr (os_platform w)),
               (''osVersion'', JStr (os_release w)),
               (''nodeVersion'', JStr (process_version w)),
               (''locale'', (case locale_env (process_env st) of
                              None \<Rightarrow> JNull | Some l \<Rightarrow> JStr l))])"
  by (simp add: deviceInfo_def Let_def split: sum.splits)

lemma map_of_spread_other:
  "k \<notin> fst ` set source \<Longrightarrow> map_of (spread source target) k = map_of target k"
  unfolding spread_def
  by (induction source arbitrary: target) (auto simp: AList.update_conv')

lemma map_of_spread_distinct:
  "distinct (map fst source) \<Longrightarrow> map_of source k = Some v \<Longrightarrow>
     map_of (spread source target) k = Some v"
  unfolding spread_def
proof (induction source arbitrary: target)
  case Nil
  then show ?case by simp
next
  case (Cons p ps)
  obtain k' v' where p: "p = (k', v')" by (cases p)
  show ?case
  proof (cases "k' = k")
    case True
    with Cons.prems p have v: "v' = v" and notin: "k \<notin> fst ` set ps" by auto
    from notin have "map_of (spread ps (AList.update k v target)) k
                     = map_of (AList.update k v target) k"
      by (rule map_of_spread_other)
    with True p v show ?thesis
      by (simp add: spread_def AList.update_conv')
  next
    case False
    with Cons.prems p have "distinct (map fst ps)" and "map_of ps k = Some v" by auto
    then have "map_of (fold (\<lambda>(k, v) acc. AList.update k v acc) ps (AList.update k' v' target)) k
               = Some v"
      by (rule Cons.IH)
    with p show ?thesis by simp
  qed
qed

lemma eventData_of_lookup:
  "map_of (eventData_of device project dbProvider eventType) k =
     (if k = ''eventType'' then Some (JStr eventType)
      else if k = ''dbProvider'' then Some (opt_str dbProvider)
      else map_of (spread project (spread device [])) k)"
  by (simp add: eventData_of_def AList.update_conv')

lemma keystone_payload:
  "Call_JSON_stringify p \<in> set (calls_made st
      (snd (sendTelemetryEvent_keystone w eventType cwd dbProvider listsConfig st))) \<Longrightarrow>
   \<exists>device project.
      fst (deviceInfo w st) = Inr device \<and> projectInfo w cwd listsConfig = Inr project
      \<and> p = eventData_of device project dbProvider eventType"
  by (auto simp: keystone_state split: if_splits sum.splits) metis+

lemma prisma_payload:
  "Call_JSON_stringify p \<in> set (calls_made st
      (snd (sendTelemetryEvent_prisma w eventType cwd dbProvider prismaSchema st))) \<Longrightarrow>
   \<exists>device project.
      fst (deviceInfo w st) = Inr device \<and> projectInfo w cwd prismaSchema = Inr project
      \<and> p = eventData_of device project dbProvider eventType"
  by (auto simp: prisma_state split: if_splits sum.splits fetch_outcome.splits)


lemma map_of_spread:
  "distinct (map fst source) \<Longrightarrow>
     map_of (spread source target) k =
       (case map_of source k of Some v \<Rightarrow> Some v | None \<Rightarrow> map_of target k)"
proof (cases "map_of source k")
  case None
  then have "k \<notin> fst ` set source" by (simp add: map_of_eq_None_iff)
  with None show ?thesis by (simp add: map_of_spread_other)
next
  case (Some v)
  assume "distinct (map fst source)"
  with Some show ?thesis by (simp add: map_of_spread_distinct)
qed

lemma deviceInfo_distinct:
  "fst (deviceInfo w st) = Inr device \<Longrightarrow> distinct (map fst device)"
  by (auto simp: deviceInfo_result split: sum.splits)

lemma collected_lookup:
  assumes "fst (deviceInfo w st) = Inr device" and "distinct (map fst project)"
  shows "map_of (spread project (spread device [])) k =
           (case map_of project k of Some v \<Rightarrow> Some v | None \<Rightarrow> map_of device k)"
proof -
  from assms(1) have "distinct (map fst device)" by (rule deviceInfo_distinct)
  then have "map_of (spread device []) k = map_of device k"
    by (simp add: map_of_spread split: option.splits)
  with assms(2) show ?thesis by (simp add: map_of_spread split: option.splits)
qed

lemma keystone_env:
  "process_env (snd (sendTelemetryEvent_keystone w eventType cwd dbProvider listsConfig st))
     = process_env st"
  by (simp add: keystone_state)

lemma legacy_payload:
  "Call_JSON_stringify p \<in> set (calls_made st
      (snd (sendTelemetryEvent_legacy w event environment cwd prismaSchema st))) \<Longrightarrow>
   \<exists>device. machineIdSync w = Inr device
      \<and> p = eventData_legacy w (process_env st) event environment cwd prismaSchema device"
  by (auto simp: legacy_state split: if_splits sum.splits) metis+

lemma legacy_sends:
  "process_env st ''TELEMETRY_DISABLED'' \<noteq> Some ''true'' \<Longrightarrow>
   machineIdSync w = Inr device \<Longrightarrow>
   JSON_stringify w (eventData_legacy w (process_env st) event environment cwd prismaSchema device)
     = Inr body \<Longrightarrow>
   calls_made st (snd (sendTelemetryEvent_legacy w event environment cwd prismaSchema st)) =
     [Call_machineIdSync,
      Call_JSON_stringify
        (eventData_legacy w (process_env st) event environment cwd prismaSchema device),
      Call_fetch (js_or_default (process_env st ''TELEMETRY_ENDPOINT'')
                    (defaults_telemetryEndpoint w) @ ''/event'')
        \<lparr>fetch_method = ''POST'',
         fetch_headers = [(''Content-Type'', ''application/json'')],
         fetch_body = body\<rparr>]"
  by (simp add: legacy_state)

lemma legacy_project:
  "map_of (eventData_legacy w env event environment cwd prismaSchema device) ''project'' =
     Some (JStr (case env ''TELEMETRY_PROJECT'' of
                   None \<Rightarrow> hashText w cwd
                 | Some s \<Rightarrow> if s = [] then hashText w cwd else s))"
  by (simp add: eventData_legacy_def js_or_default_def split: option.splits)






lemma keystone_serialises:
  assumes "process_env st ''KEYSTONE_TELEMETRY_DISABLED'' \<noteq> Some ''1''"
    and "process_env st ''KEYSTONE_TELEMETRY_DEBUG'' \<noteq> Some ''1''"
    and "fst (deviceInfo w st) = Inr device"
    and "projectInfo w cwd listsConfig = Inr project"
  shows "Call_JSON_stringify (eventData_of device project dbProvider eventType)
         \<in> set (calls_made st
              (snd (sendTelemetryEvent_keystone w eventType cwd dbProvider listsConfig st)))"
    and "\<forall>body. JSON_stringify w (eventData_of device project dbProvider eventType) = Inr body \<longrightarrow>
             (\<exists>url. Call_fetch url
                       \<lparr>fetch_method = ''POST'',
                        fetch_headers = [(''Content-Type'', ''application/json'')],
                        fetch_body = body\<rparr>
                \<in> set (calls_made st
                     (snd (sendTelemetryEvent_keystone w eventType cwd dbProvider listsConfig st))))"
  using assms by (auto simp: keystone_state)

lemma prisma_serialises:
  assumes "process_env st ''TELEMETRY_DISABLED'' \<noteq> Some ''true''"
    and "process_env st ''TELEMETRY_DEBUG'' \<noteq> Some ''1''"
    and "fst (deviceInfo w st) = Inr device"
    and "projectInfo w cwd prismaSchema = Inr project"
  shows "Call_JSON_stringify (eventData_of device project dbProvider eventType)
         \<in> set (calls_made st
              (snd (sendTelemetryEvent_prisma w eventType cwd dbProvider prismaSchema st)))"
    and "\<forall>body. JSON_stringify w (eventData_of device project dbProvider eventType) = Inr body \<longrightarrow>
             (\<exists>url. Call_fetch url
                       \<lparr>fetch_method = ''POST'',
                        fetch_headers = [(''Content-Type'', ''application/json'')],
                        fetch_body = body\<rparr>
                \<in> set (calls_made st
                     (snd (sendTelemetryEvent_prisma w eventType cwd dbProvider prismaSchema st))))"
  using assms by (auto simp: prisma_state)

lemma events_env:
  "process_env (sendTelemetryEvents w events st) = process_env st"
  by (induction w events st rule: sendTelemetryEvents.induct) (simp_all add: keystone_env)

lemma events_disabled:
  "process_env st ''KEYSTONE_TELEMETRY_DISABLED'' = Some ''1'' \<Longrightarrow>
     sendTelemetryEvents w events st = st"
  by (induction w events st rule: sendTelemetryEvents.induct) (simp_all add: keystone_disabled)

lemma module_init_disabled:
  assumes "truthy userTelemetryDisabled \<or> process_env st ''KEYSTONE_TELEMETRY_DISABLED'' = Some ''1''"
  shows "fst (module_init (Inr userTelemetryDisabled) st) = Inr ()"
    and "process_env (snd (module_init (Inr userTelemetryDisabled) st))
           ''KEYSTONE_TELEMETRY_DISABLED'' = Some ''1''"
    and "process_env (snd (module_init (Inr userTelemetryDisabled) st))
           ''NEXT_TELEMETRY_DISABLED'' = Some ''1''"
    and "process_env (snd (module_init (Inr userTelemetryDisabled) st))
           ''CHECKPOINT_DISABLE'' = Some ''1''"
  using assms by (auto simp: module_init_def Let_def)

lemmas sample_defs =
  test_world_def process_start_def deviceInfo_def locale_env_def js_or_def
  js_or_default_def eventData_of_def spread_def opt_str_def Let_def emit_def


subsection \<open>Errors and the caller\<close>




subsection \<open>The disable variable\<close>

text \<open>
  C2. The claim speaks of a truthy value of the disable variable. The code
  compares with one exact string: \<^verbatim>\<open>'1'\<close> in part_000 (line 76), \<^verbatim>\<open>'true'\<close> in
  index.ts (line 13). With that value the call changes nothing: no collector
  is called, nothing is logged, no request is made, the environment is the
  same.
\<close>

theorem disabled_exact_value_no_side_effects:
  "(process_env st ''KEYSTONE_TELEMETRY_DISABLED'' = Some ''1'' \<longrightarrow>
      sendTelemetryEvent_keystone w eventType cwd dbProvider listsConfig st = (Inr (), st))
   \<and> (process_env stp ''TELEMETRY_DISABLED'' = Some ''true'' \<longrightarrow>
      sendTelemetryEvent_prisma wp eventType cwd dbProvider prismaSchema stp = (Inr (), stp))"
  by (simp add: keystone_disabled prisma_disabled)

theorem disabled_exact_value_no_side_effects_witness:
  "sendTelemetryEvent_keystone (test_world :: listSchemaConfig world)
      ''test-event'' ''path'' (Some ''mydb'') None
      (process_start [''KEYSTONE_TELEMETRY_DISABLED'' \<mapsto> ''1''])
     = (Inr (), process_start [''KEYSTONE_TELEMETRY_DISABLED'' \<mapsto> ''1''])
   \<and> sendTelemetryEvent_prisma test_world ''test-event'' ''path'' (Some ''mydb'') None
      (process_start [''TELEMETRY_DISABLED'' \<mapsto> ''true''])
     = (Inr (), process_start [''TELEMETRY_DISABLED'' \<mapsto> ''true''])"
  using disabled_exact_value_no_side_effects
    [where st = "process_start [''KEYSTONE_TELEMETRY_DISABLED'' \<mapsto> ''1'']"
       and stp = "process_start [''TELEMETRY_DISABLED'' \<mapsto> ''true'']"
       and w = "test_world :: listSchemaConfig world" and wp = test_world
       and eventType = "''test-event''" and cwd = "''path''" and dbProvider = "Some ''mydb''"
       and listsConfig = None and prismaSchema = None]
  by (simp add: process_start_def)

text \<open>
  With the truthy value \<^verbatim>\<open>'true'\<close> in \<^verbatim>\<open>KEYSTONE_TELEMETRY_DISABLED\<close> the newer
  dispatcher collects both fingerprints and issues the request.
\<close>

theorem disabled_truthy_counterexample:
  "calls (snd (sendTelemetryEvent_keystone (test_world :: listSchemaConfig world)
          ''test-event'' ''path'' (Some ''mydb'') None
          (process_start [''KEYSTONE_TELEMETRY_DISABLED'' \<mapsto> ''true'']))) =
       [Call_machineIdSync,
        Call_projectInfo ''path'' None,
        Call_JSON_stringify
          [(''deviceHash'', JStr ''device-hashed''), (''os'', JStr ''keystone-os''),
           (''osVersion'', JStr ''0.0.1''), (''nodeVersion'', JStr ''v14''),
           (''locale'', JNull), (''gitOriginHash'', JStr ''origin-hashed''),
           (''pathHash'', JStr ''path-hashed''), (''dbProvider'', JStr ''mydb''),
           (''eventType'', JStr ''test-event'')],
        Call_fetch ''https://telemetry.keystonejs.com/v1/event''
          \<lparr>fetch_method = ''POST'',
           fetch_headers = [(''Content-Type'', ''application/json'')],
           fetch_body = ''<json>''\<rparr>]"
  by (simp add: keystone_state sample_defs)

subsection \<open>The request\<close>

text \<open>
  C5. Whenever a dispatcher calls \<^verbatim>\<open>fetch\<close>, the target is the endpoint
  variable if it is set and non-empty, else \<^verbatim>\<open>defaults.telemetryEndpoint\<close>,
  followed by \<^verbatim>\<open>/v1/event\<close> in part_000 and by \<^verbatim>\<open>/event\<close> in index.ts; the method
  is POST, the only header is the JSON content type, and the body is what
  \<^verbatim>\<open>JSON.stringify\<close> returned for the payload. When telemetry is neither
  disabled nor in debug mode and collection and serialisation succeed, that
  call is made, once.
\<close>

theorem request_target_and_shape:
  "(Call_fetch url init \<in> set (calls_made st
        (snd (sendTelemetryEvent_keystone w eventType cwd dbProvider listsConfig st))) \<longrightarrow>
      url = (case process_env st ''KEYSTONE_TELEMETRY_ENDPOINT'' of
               None \<Rightarrow> defaults_telemetryEndpoint w
             | Some e \<Rightarrow> if e = [] then defaults_telemetryEndpoint w else e) @ ''/v1/event''
      \<and> fetch_method init = ''POST''
      \<and> fetch_headers init = [(''Content-Type'', ''application/json'')]
      \<and> (\<exists>device project.
            fst (deviceInfo w st) = Inr device
            \<and> projectInfo w cwd listsConfig = Inr project
            \<and> JSON_stringify w (eventData_of device project dbProvider eventType)
                = Inr (fetch_body init)))
   \<and> (process_env st ''KEYSTONE_TELEMETRY_DISABLED'' \<noteq> Some ''1''
       \<and> process_env st ''KEYSTONE_TELEMETRY_DEBUG'' \<noteq> Some ''1''
       \<and> fst (deviceInfo w st) = Inr device
       \<and> projectInfo w cwd listsConfig = Inr project
       \<and> JSON_stringify w (eventData_of device project dbProvider eventType) = Inr body \<longrightarrow>
      calls_made st (snd (sendTelemetryEvent_keystone w eventType cwd dbProvider listsConfig st)) =
        [Call_machineIdSync,
         Call_projectInfo cwd listsConfig,
         Call_JSON_stringify (eventData_of device project dbProvider eventType),
         Call_fetch
           ((case process_env st ''KEYSTONE_TELEMETRY_ENDPOINT'' of
               None \<Rightarrow> defaults_telemetryEndpoint w
             | Some e \<Rightarrow> if e = [] then defaults_telemetryEndpoint w else e) @ ''/v1/event'')
           \<lparr>fetch_method = ''POST'',
            fetch_headers = [(''Content-Type'', ''application/json'')],
            fetch_body = body\<rparr>])
   \<and> (Call_fetch urlp initp \<in> set (calls_made stp
        (snd (sendTelemetryEvent_prisma wp eventType cwd dbProvider prismaSchema stp))) \<longrightarrow>
      urlp = (case process_env stp ''TELEMETRY_ENDPOINT'' of
               None \<Rightarrow> defaults_telemetryEndpoint wp
             | Some e \<Rightarrow> if e = [] then defaults_telemetryEndpoint wp else e) @ ''/event''
      \<and> fetch_method initp = ''POST''
      \<and> fetch_headers initp = [(''Content-Type'', ''application/json'')]
      \<and> (\<exists>device project.
            fst (deviceInfo wp stp) = Inr device
            \<and> projectInfo wp cwd prismaSchema = Inr project
            \<and> JSON_stringify wp (eventData_of device project dbProvider eventType)
                = Inr (fetch_body initp)))"
proof (intro conjI impI)
  assume "Call_fetch url init \<in> set (calls_made st
        (snd (sendTelemetryEvent_keystone w eventType cwd dbProvider listsConfig st)))"
  then have k: "url = js_or_default (process_env st ''KEYSTONE_TELEMETRY_ENDPOINT'')
                   (defaults_telemetryEndpoint w) @ ''/v1/event''
      \<and> fetch_method init = ''POST''
      \<and> fetch_headers init = [(''Content-Type'', ''application/json'')]
      \<and> (\<exists>device project.
            fst (deviceInfo w st) = Inr device
            \<and> projectInfo w cwd listsConfig = Inr project
            \<and> JSON_stringify w (eventData_of device project dbProvider eventType)
                = Inr (fetch_body init))"
    by (auto simp: keystone_state split: if_splits sum.splits) metis+
  from k show "url = (case process_env st ''KEYSTONE_TELEMETRY_ENDPOINT'' of
               None \<Rightarrow> defaults_telemetryEndpoint w
             | Some e \<Rightarrow> if e = [] then defaults_telemetryEndpoint w else e) @ ''/v1/event''"
    by (simp add: js_or_default_def)
  from k show "fetch_method init = ''POST''" by simp
  from k show "fetch_headers init = [(''Content-Type'', ''application/json'')]" by simp
  from k show "\<exists>device project.
            fst (deviceInfo w st) = Inr device
            \<and> projectInfo w cwd listsConfig = Inr project
            \<and> JSON_stringify w (eventData_of device project dbProvider eventType)
                = Inr (fetch_body init)" by simp
next
  assume "process_env st ''KEYSTONE_TELEMETRY_DISABLED'' \<noteq> Some ''1''
       \<and> process_env st ''KEYSTONE_TELEMETRY_DEBUG'' \<noteq> Some ''1''
       \<and> fst (deviceInfo w st) = Inr device
       \<and> projectInfo w cwd listsConfig = Inr project
       \<and> JSON_stringify w (eventData_of device project dbProvider eventType) = Inr body"
  then show "calls_made st (snd (sendTelemetryEvent_keystone w eventType cwd dbProvider listsConfig st)) =
        [Call_machineIdSync,
         Call_projectInfo cwd listsConfig,
         Call_JSON_stringify (eventData_of device project dbProvider eventType),
         Call_fetch
           ((case process_env st ''KEYSTONE_TELEMETRY_ENDPOINT'' of
               None \<Rightarrow> defaults_telemetryEndpoint w
             | Some e \<Rightarrow> if e = [] then defaults_telemetryEndpoint w else e) @ ''/v1/event'')
           \<lparr>fetch_method = ''POST'',
            fetch_headers = [(''Content-Type'', ''application/json'')],
            fetch_body = body\<rparr>]"
    by (simp add: keystone_state js_or_default_def)
next
  assume "Call_fetch urlp initp \<in> set (calls_made stp
        (snd (sendTelemetryEvent_prisma wp eventType cwd dbProvider prismaSchema stp)))"
  then have p: "urlp = js_or_default (process_env stp ''TELEMETRY_ENDPOINT'')
                   (defaults_telemetryEndpoint wp) @ ''/event''
      \<and> fetch_method initp = ''POST''
      \<and> fetch_headers initp = [(''Content-Type'', ''application/json'')]
      \<and> (\<exists>device project.
            fst (deviceInfo wp stp) = Inr device
            \<and> projectInfo wp cwd prismaSchema = Inr project
            \<and> JSON_stringify wp (eventData_of device project dbProvider eventType)
                = Inr (fetch_body initp))"
    by (auto simp: prisma_state split: if_splits sum.splits fetch_outcome.splits)
  from p show "urlp = (case process_env stp ''TELEMETRY_ENDPOINT'' of
               None \<Rightarrow> defaults_telemetryEndpoint wp
             | Some e \<Rightarrow> if e = [] then defaults_telemetryEndpoint wp else e) @ ''/event''"
    by (simp add: js_or_default_def)
  from p show "fetch_method initp = ''POST''" by simp
  from p show "fetch_headers initp = [(''Content-Type'', ''application/json'')]" by simp
  from p show "\<exists>device project.
            fst (deviceInfo wp stp) = Inr device
            \<and> projectInfo wp cwd prismaSchema = Inr project
            \<and> JSON_stringify wp (eventData_of device project dbProvider eventType)
                = Inr (fetch_body initp)" by simp
qed

theorem request_target_and_shape_witness:
  "calls_made (process_start [''KEYSTONE_TELEMETRY_ENDPOINT'' \<mapsto> ''https://keylemetry.com''])
     (snd (sendTelemetryEvent_keystone (test_world :: listSchemaConfig world)
        ''test-event'' ''path'' (Some ''mydb'') None
        (process_start [''KEYSTONE_TELEMETRY_ENDPOINT'' \<mapsto> ''https://keylemetry.com'']))) =
     [Call_machineIdSync,
      Call_projectInfo ''path'' None,
      Call_JSON_stringify
        [(''deviceHash'', JStr ''device-hashed''), (''os'', JStr ''keystone-os''),
         (''osVersion'', JStr ''0.0.1''), (''nodeVersion'', JStr ''v14''),
         (''locale'', JNull), (''gitOriginHash'', JStr ''origin-hashed''),
         (''pathHash'', JStr ''path-hashed''), (''dbProvider'', JStr ''mydb''),
         (''eventType'', JStr ''test-event'')],
      Call_fetch ''https://keylemetry.com/v1/event''
        \<lparr>fetch_method = ''POST'',
         fetch_headers = [(''Content-Type'', ''application/json'')],
         fetch_body = ''<json>''\<rparr>]"
  using request_target_and_shape
    [where w = "test_world :: listSchemaConfig world" and eventType = "''test-event''"
       and cwd = "''path''" and dbProvider = "Some ''mydb''" and listsConfig = None
       and st = "process_start [''KEYSTONE_TELEMETRY_ENDPOINT'' \<mapsto> ''https://keylemetry.com'']"
       and device = "[(''deviceHash'', JStr ''device-hashed''), (''os'', JStr ''keystone-os''),
         (''osVersion'', JStr ''0.0.1''), (''nodeVersion'', JStr ''v14''),
         (''locale'', JNull)]"
       and project = "[(''gitOriginHash'', JStr ''origin-hashed''),
         (''pathHash'', JStr ''path-hashed'')]"
       and body = "''<json>''"
       and url = "''https://keylemetry.com/v1/event''"
       and init = "\<lparr>fetch_method = ''POST'',
         fetch_headers = [(''Content-Type'', ''application/json'')],
         fetch_body = ''<json>''\<rparr>"
       and wp = test_world and stp = "process_start Map.empty" and prismaSchema = None
       and urlp = "''https://telemetry.keystonejs.com/event''"
       and initp = "\<lparr>fetch_method = ''POST'',
         fetch_headers = [(''Content-Type'', ''application/json'')],
         fetch_body = ''<json>''\<rparr>"]
  by (simp add: deviceInfo_result sample_defs)

text \<open>
  The dispatcher of index.ts (line 32) posts to \<^verbatim>\<open>/event\<close>, not to \<^verbatim>\<open>/v1/event\<close>.
\<close>

theorem request_path_counterexample:
  "calls_made (process_start Map.empty)
     (snd (sendTelemetryEvent_prisma test_world ''test-event'' ''path'' (Some ''mydb'') None
        (process_start Map.empty))) =
     [Call_machineIdSync,
      Call_projectInfo ''path'' None,
      Call_JSON_stringify
        [(''deviceHash'', JStr ''device-hashed''), (''os'', JStr ''keystone-os''),
         (''osVersion'', JStr ''0.0.1''), (''nodeVersion'', JStr ''v14''),
         (''locale'', JNull), (''gitOriginHash'', JStr ''origin-hashed''),
         (''pathHash'', JStr ''path-hashed''), (''dbProvider'', JStr ''mydb''),
         (''eventType'', JStr ''test-event'')],
      Call_fetch ''https://telemetry.keystonejs.com/event''
        \<lparr>fetch_method = ''POST'',
         fetch_headers = [(''Content-Type'', ''application/json'')],
         fetch_body = ''<json>''\<rparr>]
   \<and> ''https://telemetry.keystonejs.com/event''
       \<noteq> defaults_telemetryEndpoint (test_world :: string world) @ ''/v1/event''"
  by (simp add: prisma_state sample_defs)

subsection \<open>Debug mode\<close>

text \<open>
  C6. With the debug variable equal to \<^verbatim>\<open>'1'\<close>, telemetry not disabled and both
  collectors returning, part_000 logs the resolved URL and then the payload,
  index.ts logs the payload only; neither calls \<^verbatim>\<open>fetch\<close>, whatever the
  collectors do. The disable check comes first: with both variables set
  nothing is collected or logged.
\<close>

theorem debug_logs_and_sends_nothing:
  "(process_env st ''KEYSTONE_TELEMETRY_DISABLED'' \<noteq> Some ''1''
       \<and> process_env st ''KEYSTONE_TELEMETRY_DEBUG'' = Some ''1''
       \<and> fst (deviceInfo w st) = Inr device
       \<and> projectInfo w cwd listsConfig = Inr project \<longrightarrow>
      calls_made st (snd (sendTelemetryEvent_keystone w eventType cwd dbProvider listsConfig st)) =
        [Call_machineIdSync,
         Call_projectInfo cwd listsConfig,
         Call_console_log (Log_string (''[Telemetry]: '' @
           (case process_env st ''KEYSTONE_TELEMETRY_ENDPOINT'' of
              None \<Rightarrow> defaults_telemetryEndpoint w
            | Some e \<Rightarrow> if e = [] then defaults_telemetryEndpoint w else e) @ ''/v1/event'')),
         Call_console_log (Log_object (eventData_of device project dbProvider eventType))])
   \<and> (process_env st ''KEYSTONE_TELEMETRY_DEBUG'' = Some ''1'' \<longrightarrow>
        (\<forall>url init. Call_fetch url init \<notin> set (calls_made st
           (snd (sendTelemetryEvent_keystone w eventType cwd dbProvider listsConfig st)))))
   \<and> (process_env st ''KEYSTONE_TELEMETRY_DISABLED'' = Some ''1''
       \<and> process_env st ''KEYSTONE_TELEMETRY_DEBUG'' = Some ''1'' \<longrightarrow>
      calls_made st (snd (sendTelemetryEvent_keystone w eventType cwd dbProvider listsConfig st)) = [])
   \<and> (process_env stp ''TELEMETRY_DISABLED'' \<noteq> Some ''true''
       \<and> process_env stp ''TELEMETRY_DEBUG'' = Some ''1''
       \<and> fst (deviceInfo wp stp) = Inr devicep
       \<and> projectInfo wp cwd prismaSchema = Inr projectp \<longrightarrow>
      calls_made stp (snd (sendTelemetryEvent_prisma wp eventType cwd dbProvider prismaSchema stp)) =
        [Call_machineIdSync,
         Call_projectInfo cwd prismaSchema,
         Call_console_log (Log_object (eventData_of devicep projectp dbProvider eventType))])
   \<and> (process_env stp ''TELEMETRY_DEBUG'' = Some ''1'' \<longrightarrow>
        (\<forall>url init. Call_fetch url init \<notin> set (calls_made stp
           (snd (sendTelemetryEvent_prisma wp eventType cwd dbProvider prismaSchema stp)))))
   \<and> (process_env stp ''TELEMETRY_DISABLED'' = Some ''true''
       \<and> process_env stp ''TELEMETRY_DEBUG'' = Some ''1'' \<longrightarrow>
      calls_made stp (snd (sendTelemetryEvent_prisma wp eventType cwd dbProvider prismaSchema stp)) = [])"
proof (intro conjI impI allI)
  assume "process_env st ''KEYSTONE_TELEMETRY_DISABLED'' \<noteq> Some ''1''
       \<and> process_env st ''KEYSTONE_TELEMETRY_DEBUG'' = Some ''1''
       \<and> fst (deviceInfo w st) = Inr device
       \<and> projectInfo w cwd listsConfig = Inr project"
  then show "calls_made st (snd (sendTelemetryEvent_keystone w eventType cwd dbProvider listsConfig st)) =
        [Call_machineIdSync,
         Call_projectInfo cwd listsConfig,
         Call_console_log (Log_string (''[Telemetry]: '' @
           (case process_env st ''KEYSTONE_TELEMETRY_ENDPOINT'' of
              None \<Rightarrow> defaults_telemetryEndpoint w
            | Some e \<Rightarrow> if e = [] then defaults_telemetryEndpoint w else e) @ ''/v1/event'')),
         Call_console_log (Log_object (eventData_of device project dbProvider eventType))]"
    by (simp add: keystone_state js_or_default_def)
next
  fix url init
  assume "process_env st ''KEYSTONE_TELEMETRY_DEBUG'' = Some ''1''"
  then show "Call_fetch url init \<notin> set (calls_made st
           (snd (sendTelemetryEvent_keystone w eventType cwd dbProvider listsConfig st)))"
    by (simp add: keystone_state split: sum.splits)
next
  assume "process_env st ''KEYSTONE_TELEMETRY_DISABLED'' = Some ''1''
       \<and> process_env st ''KEYSTONE_TELEMETRY_DEBUG'' = Some ''1''"
  then show "calls_made st
       (snd (sendTelemetryEvent_keystone w eventType cwd dbProvider listsConfig st)) = []"
    by (simp add: keystone_state)
next
  assume "process_env stp ''TELEMETRY_DISABLED'' \<noteq> Some ''true''
       \<and> process_env stp ''TELEMETRY_DEBUG'' = Some ''1''
       \<and> fst (deviceInfo wp stp) = Inr devicep
       \<and> projectInfo wp cwd prismaSchema = Inr projectp"
  then show "calls_made stp
       (snd (sendTelemetryEvent_prisma wp eventType cwd dbProvider prismaSchema stp)) =
        [Call_machineIdSync,
         Call_projectInfo cwd prismaSchema,
         Call_console_log (Log_object (eventData_of devicep projectp dbProvider eventType))]"
    by (simp add: prisma_state)
next
  fix url init
  assume "process_env stp ''TELEMETRY_DEBUG'' = Some ''1''"
  then show "Call_fetch url init \<notin> set (calls_made stp
           (snd (sendTelemetryEvent_prisma wp eventType cwd dbProvider prismaSchema stp)))"
    by (simp add: prisma_state split: sum.splits)
next
  assume "process_env stp ''TELEMETRY_DISABLED'' = Some ''true''
       \<and> process_env stp ''TELEMETRY_DEBUG'' = Some ''1''"
  then show "calls_made stp
       (snd (sendTelemetryEvent_prisma wp eventType cwd dbProvider prismaSchema stp)) = []"
    by (simp add: prisma_state)
qed

theorem debug_logs_and_sends_nothing_witness:
  "calls_made (process_start [''KEYSTONE_TELEMETRY_DEBUG'' \<mapsto> ''1''])
     (snd (sendTelemetryEvent_keystone (test_world :: listSchemaConfig world)
        ''test-event'' ''path'' (Some ''mydb'') None
        (process_start [''KEYSTONE_TELEMETRY_DEBUG'' \<mapsto> ''1'']))) =
     [Call_machineIdSync,
      Call_projectInfo ''path'' None,
      Call_console_log (Log_string ''[Telemetry]: https://telemetry.keystonejs.com/v1/event''),
      Call_console_log (Log_object
        [(''deviceHash'', JStr ''device-hashed''), (''os'', JStr ''keystone-os''),
         (''osVersion'', JStr ''0.0.1''), (''nodeVersion'', JStr ''v14''),
         (''locale'', JNull), (''gitOriginHash'', JStr ''origin-hashed''),
         (''pathHash'', JStr ''path-hashed''), (''dbProvider'', JStr ''mydb''),
         (''eventType'', JStr ''test-event'')])]"
  using debug_logs_and_sends_nothing
    [where w = "test_world :: listSchemaConfig world" and eventType = "''test-event''"
       and cwd = "''path''" and dbProvider = "Some ''mydb''" and listsConfig = None
       and st = "process_start [''KEYSTONE_TELEMETRY_DEBUG'' \<mapsto> ''1'']"
       and device = "[(''deviceHash'', JStr ''device-hashed''), (''os'', JStr ''keystone-os''),
         (''osVersion'', JStr ''0.0.1''), (''nodeVersion'', JStr ''v14''),
         (''locale'', JNull)]"
       and project = "[(''gitOriginHash'', JStr ''origin-hashed''),
         (''pathHash'', JStr ''path-hashed'')]"
       and wp = test_world and stp = "process_start [''TELEMETRY_DEBUG'' \<mapsto> ''1'']"
       and prismaSchema = None
       and devicep = "[(''deviceHash'', JStr ''device-hashed''), (''os'', JStr ''keystone-os''),
         (''osVersion'', JStr ''0.0.1''), (''nodeVersion'', JStr ''v14''),
         (''locale'', JNull)]"
       and projectp = "[(''gitOriginHash'', JStr ''origin-hashed''),
         (''pathHash'', JStr ''path-hashed'')]"]
  by (simp add: deviceInfo_result sample_defs)

text \<open>
  In index.ts (lines 28-29) debug mode logs the payload and no URL. In
  part_000 (line 90) a debug variable set to \<^verbatim>\<open>'true'\<close> is not debug mode: the
  request is made and nothing is logged.
\<close>

theorem debug_url_counterexample:
  "calls_made (process_start [''TELEMETRY_DEBUG'' \<mapsto> ''1''])
     (snd (sendTelemetryEvent_prisma test_world ''test-event'' ''path'' (Some ''mydb'') None
        (process_start [''TELEMETRY_DEBUG'' \<mapsto> ''1'']))) =
     [Call_machineIdSync,
      Call_projectInfo ''path'' None,
      Call_console_log (Log_object
        [(''deviceHash'', JStr ''device-hashed''), (''os'', JStr ''keystone-os''),
         (''osVersion'', JStr ''0.0.1''), (''nodeVersion'', JStr ''v14''),
         (''locale'', JNull), (''gitOriginHash'', JStr ''origin-hashed''),
         (''pathHash'', JStr ''path-hashed''), (''dbProvider'', JStr ''mydb''),
         (''eventType'', JStr ''test-event'')])]
   \<and> calls_made (process_start [''KEYSTONE_TELEMETRY_DEBUG'' \<mapsto> ''true''])
     (snd (sendTelemetryEvent_keystone (test_world :: listSchemaConfig world)
        ''test-event'' ''path'' (Some ''mydb'') None
        (process_start [''KEYSTONE_TELEMETRY_DEBUG'' \<mapsto> ''true'']))) =
     [Call_machineIdSync,
      Call_projectInfo ''path'' None,
      Call_JSON_stringify
        [(''deviceHash'', JStr ''device-hashed''), (''os'', JStr ''keystone-os''),
         (''osVersion'', JStr ''0.0.1''), (''nodeVersion'', JStr ''v14''),
         (''locale'', JNull), (''gitOriginHash'', JStr ''origin-hashed''),
         (''pathHash'', JStr ''path-hashed''), (''dbProvider'', JStr ''mydb''),
         (''eventType'', JStr ''test-event'')],
      Call_fetch ''https://telemetry.keystonejs.com/v1/event''
        \<lparr>fetch_method = ''POST'',
         fetch_headers = [(''Content-Type'', ''application/json'')],
         fetch_body = ''<json>''\<rparr>]"
  by (simp add: prisma_state keystone_state sample_defs)

subsection \<open>The locale\<close>

text \<open>
  C7. The locale is the first non-empty value among \<^verbatim>\<open>LC_ALL\<close>, \<^verbatim>\<open>LC_MESSAGES\<close>,
  \<^verbatim>\<open>LANG\<close>, \<^verbatim>\<open>LANGUAGE\<close> and, last, \<^verbatim>\<open>LC_NAME\<close>, cut before its first
  \<^verbatim>\<open>.\<close>; it is null when none of the five is set to a non-empty string.
  Computing it cannot throw: \<^verbatim>\<open>deviceInfo\<close> returns whenever \<^verbatim>\<open>machineIdSync\<close>
  does, with that value in its \<^verbatim>\<open>locale\<close> field.
\<close>

theorem deviceInfo_locale:
  "locale_env env =
     map_option strip_encoding
       (first_nonempty env [''LC_ALL'', ''LC_MESSAGES'', ''LANG'', ''LANGUAGE'', ''LC_NAME''])
   \<and> (machineIdSync w = Inr deviceHash \<longrightarrow>
        (\<exists>device. fst (deviceInfo w st) = Inr device
           \<and> map_of device ''locale'' =
               Some (case first_nonempty (process_env st)
                            [''LC_ALL'', ''LC_MESSAGES'', ''LANG'', ''LANGUAGE'', ''LC_NAME''] of
                       None \<Rightarrow> JNull
                     | Some l \<Rightarrow> JStr (strip_encoding l))))"
  by (simp add: locale_env_eq deviceInfo_result split: option.splits)

theorem deviceInfo_locale_witness:
  "locale_env [''LC_ALL'' \<mapsto> ''en_AU.UTF8''] = Some ''en_AU''
   \<and> fst (deviceInfo (test_world :: listSchemaConfig world)
        (process_start [''LC_ALL'' \<mapsto> ''en_AU.UTF8''])) =
       Inr [(''deviceHash'', JStr ''device-hashed''), (''os'', JStr ''keystone-os''),
            (''osVersion'', JStr ''0.0.1''), (''nodeVersion'', JStr ''v14''),
            (''locale'', JStr ''en_AU'')]"
  using deviceInfo_locale
    [where env = "[''LC_ALL'' \<mapsto> ''en_AU.UTF8'']" and w = "test_world :: listSchemaConfig world"
       and deviceHash = "''device-hashed''"
       and st = "process_start [''LC_ALL'' \<mapsto> ''en_AU.UTF8'']"]
  by (simp add: strip_encoding_def test_world_def process_start_def deviceInfo_result)

text \<open>
  With only \<^verbatim>\<open>LC_NAME\<close> set, none of the four variables the claim lists has a
  value, yet the locale field is not null (index.ts, line 54).
\<close>

theorem locale_LC_NAME_counterexample:
  "first_nonempty [''LC_NAME'' \<mapsto> ''en_AU.UTF8'']
       [''LC_ALL'', ''LC_MESSAGES'', ''LANG'', ''LANGUAGE''] = None
   \<and> fst (deviceInfo (test_world :: listSchemaConfig world)
        (process_start [''LC_NAME'' \<mapsto> ''en_AU.UTF8''])) =
       Inr [(''deviceHash'', JStr ''device-hashed''), (''os'', JStr ''keystone-os''),
            (''osVersion'', JStr ''0.0.1''), (''nodeVersion'', JStr ''v14''),
            (''locale'', JStr ''en_AU'')]"
  by (simp add: test_world_def process_start_def deviceInfo_result locale_env_def js_or_def
        substring0_def Let_def)

subsection \<open>The merged payload\<close>

text \<open>
  C8. In the object \<^verbatim>\<open>{...deviceInfo(), ...projectInfo(...), dbProvider,
  eventType}\<close> the keys \<^verbatim>\<open>dbProvider\<close> and \<^verbatim>\<open>eventType\<close> hold the call's
  arguments, also when a collector returned a field of that name. Every
  payload handed to \<^verbatim>\<open>JSON.stringify\<close> by either dispatcher is such an
  object, and under every other key it holds the collected value: the one
  of \<^verbatim>\<open>projectInfo\<close> if it has the key, else the one of \<^verbatim>\<open>deviceInfo\<close>. Either
  dispatcher does hand that object to \<^verbatim>\<open>JSON.stringify\<close> when telemetry is
  neither disabled nor in debug mode and both collectors return, and posts
  the text it gets back.
\<close>

theorem call_supplied_fields_take_precedence:
  "map_of (eventData_of device project dbProvider eventType) ''dbProvider'' = Some (opt_str dbProvider)
   \<and> map_of (eventData_of device project dbProvider eventType) ''eventType'' = Some (JStr eventType)
   \<and> (Call_JSON_stringify p \<in> set (calls_made st
         (snd (sendTelemetryEvent_keystone w eventType cwd dbProvider listsConfig st))) \<longrightarrow>
       map_of p ''dbProvider'' = Some (opt_str dbProvider)
       \<and> map_of p ''eventType'' = Some (JStr eventType)
       \<and> (\<exists>dev proj.
             fst (deviceInfo w st) = Inr dev \<and> projectInfo w cwd listsConfig = Inr proj
             \<and> p = eventData_of dev proj dbProvider eventType
             \<and> (\<forall>k. k \<noteq> ''dbProvider'' \<and> k \<noteq> ''eventType'' \<and> distinct (map fst proj) \<longrightarrow>
                   map_of p k = (case map_of proj k of
                                   Some v \<Rightarrow> Some v
                                 | None \<Rightarrow> map_of dev k))))
   \<and> (Call_JSON_stringify pp \<in> set (calls_made stp
         (snd (sendTelemetryEvent_prisma wp eventType cwd dbProvider prismaSchema stp))) \<longrightarrow>
       map_of pp ''dbProvider'' = Some (opt_str dbProvider)
       \<and> map_of pp ''eventType'' = Some (JStr eventType)
       \<and> (\<exists>dev proj.
             fst (deviceInfo wp stp) = Inr dev \<and> projectInfo wp cwd prismaSchema = Inr proj
             \<and> pp = eventData_of dev proj dbProvider eventType
             \<and> (\<forall>k. k \<noteq> ''dbProvider'' \<and> k \<noteq> ''eventType'' \<and> distinct (map fst proj) \<longrightarrow>
                   map_of pp k = (case map_of proj k of
                                    Some v \<Rightarrow> Some v
                                  | None \<Rightarrow> map_of dev k))))
   \<and> (process_env st ''KEYSTONE_TELEMETRY_DISABLED'' \<noteq> Some ''1''
       \<and> process_env st ''KEYSTONE_TELEMETRY_DEBUG'' \<noteq> Some ''1''
       \<and> fst (deviceInfo w st) = Inr device
       \<and> projectInfo w cwd listsConfig = Inr project \<longrightarrow>
       Call_JSON_stringify (eventData_of device project dbProvider eventType)
         \<in> set (calls_made st
              (snd (sendTelemetryEvent_keystone w eventType cwd dbProvider listsConfig st)))
       \<and> (\<forall>body. JSON_stringify w (eventData_of device project dbProvider eventType) = Inr body \<longrightarrow>
             (\<exists>url. Call_fetch url
                       \<lparr>fetch_method = ''POST'',
                        fetch_headers = [(''Content-Type'', ''application/json'')],
                        fetch_body = body\<rparr>
                \<in> set (calls_made st
                     (snd (sendTelemetryEvent_keystone w eventType cwd dbProvider listsConfig st))))))
   \<and> (process_env stp ''TELEMETRY_DISABLED'' \<noteq> Some ''true''
       \<and> process_env stp ''TELEMETRY_DEBUG'' \<noteq> Some ''1''
       \<and> fst (deviceInfo wp stp) = Inr devicep
       \<and> projectInfo wp cwd prismaSchema = Inr projectp \<longrightarrow>
       Call_JSON_stringify (eventData_of devicep projectp dbProvider eventType)
         \<in> set (calls_made stp
              (snd (sendTelemetryEvent_prisma wp eventType cwd dbProvider prismaSchema stp)))
       \<and> (\<forall>body. JSON_stringify wp (eventData_of devicep projectp dbProvider eventType) = Inr body \<longrightarrow>
             (\<exists>url. Call_fetch url
                       \<lparr>fetch_method = ''POST'',
                        fetch_headers = [(''Content-Type'', ''application/json'')],
                        fetch_body = body\<rparr>
                \<in> set (calls_made stp
                     (snd (sendTelemetryEvent_prisma wp eventType cwd dbProvider prismaSchema stp))))))"
proof (intro conjI impI)
  show "map_of (eventData_of device project dbProvider eventType) ''dbProvider''
          = Some (opt_str dbProvider)"
    by (simp add: eventData_of_lookup)
  show "map_of (eventData_of device project dbProvider eventType) ''eventType''
          = Some (JStr eventType)"
    by (simp add: eventData_of_lookup)
next
  assume "Call_JSON_stringify p \<in> set (calls_made st
         (snd (sendTelemetryEvent_keystone w eventType cwd dbProvider listsConfig st)))"
  then obtain dev proj where
    d: "fst (deviceInfo w st) = Inr dev" and pr: "projectInfo w cwd listsConfig = Inr proj"
    and p: "p = eventData_of dev proj dbProvider eventType"
    using keystone_payload by blast
  from p show "map_of p ''dbProvider'' = Some (opt_str dbProvider)"
    by (simp add: eventData_of_lookup)
  from p show "map_of p ''eventType'' = Some (JStr eventType)"
    by (simp add: eventData_of_lookup)
  from d pr p show "\<exists>dev proj.
             fst (deviceInfo w st) = Inr dev \<and> projectInfo w cwd listsConfig = Inr proj
             \<and> p = eventData_of dev proj dbProvider eventType
             \<and> (\<forall>k. k \<noteq> ''dbProvider'' \<and> k \<noteq> ''eventType'' \<and> distinct (map fst proj) \<longrightarrow>
                   map_of p k = (case map_of proj k of
                                   Some v \<Rightarrow> Some v
                                 | None \<Rightarrow> map_of dev k))"
    by (intro exI [of _ dev] exI [of _ proj])
       (simp add: eventData_of_lookup collected_lookup)
next
  assume "Call_JSON_stringify pp \<in> set (calls_made stp
         (snd (sendTelemetryEvent_prisma wp eventType cwd dbProvider prismaSchema stp)))"
  then obtain dev proj where
    d: "fst (deviceInfo wp stp) = Inr dev" and pr: "projectInfo wp cwd prismaSchema = Inr proj"
    and p: "pp = eventData_of dev proj dbProvider eventType"
    using prisma_payload by blast
  from p show "map_of pp ''dbProvider'' = Some (opt_str dbProvider)"
    by (simp add: eventData_of_lookup)
  from p show "map_of pp ''eventType'' = Some (JStr eventType)"
    by (simp add: eventData_of_lookup)
  from d pr p show "\<exists>dev proj.
             fst (deviceInfo wp stp) = Inr dev \<and> projectInfo wp cwd prismaSchema = Inr proj
             \<and> pp = eventData_of dev proj dbProvider eventType
             \<and> (\<forall>k. k \<noteq> ''dbProvider'' \<and> k \<noteq> ''eventType'' \<and> distinct (map fst proj) \<longrightarrow>
                   map_of pp k = (case map_of proj k of
                                    Some v \<Rightarrow> Some v
                                  | None \<Rightarrow> map_of dev k))"
    by (intro exI [of _ dev] exI [of _ proj])
       (simp add: eventData_of_lookup collected_lookup)
next
  assume "process_env st ''KEYSTONE_TELEMETRY_DISABLED'' \<noteq> Some ''1''
       \<and> process_env st ''KEYSTONE_TELEMETRY_DEBUG'' \<noteq> Some ''1''
       \<and> fst (deviceInfo w st) = Inr device
       \<and> projectInfo w cwd listsConfig = Inr project"
  then have "Call_JSON_stringify (eventData_of device project dbProvider eventType)
         \<in> set (calls_made st
              (snd (sendTelemetryEvent_keystone w eventType cwd dbProvider listsConfig st)))"
    and "\<forall>body. JSON_stringify w (eventData_of device project dbProvider eventType) = Inr body \<longrightarrow>
             (\<exists>url. Call_fetch url
                       \<lparr>fetch_method = ''POST'',
                        fetch_headers = [(''Content-Type'', ''application/json'')],
                        fetch_body = body\<rparr>
                \<in> set (calls_made st
                     (snd (sendTelemetryEvent_keystone w eventType cwd dbProvider listsConfig st))))"
    using keystone_serialises [of st w device cwd listsConfig project dbProvider eventType]
    by simp_all
  then show "Call_JSON_stringify (eventData_of device project dbProvider eventType)
         \<in> set (calls_made st
              (snd (sendTelemetryEvent_keystone w eventType cwd dbProvider listsConfig st)))"
    and "\<forall>body. JSON_stringify w (eventData_of device project dbProvider eventType) = Inr body \<longrightarrow>
             (\<exists>url. Call_fetch url
                       \<lparr>fetch_method = ''POST'',
                        fetch_headers = [(''Content-Type'', ''application/json'')],
                        fetch_body = body\<rparr>
                \<in> set (calls_made st
                     (snd (sendTelemetryEvent_keystone w eventType cwd dbProvider listsConfig st))))"
    by simp_all
next
  assume "process_env stp ''TELEMETRY_DISABLED'' \<noteq> Some ''true''
       \<and> process_env stp ''TELEMETRY_DEBUG'' \<noteq> Some ''1''
       \<and> fst (deviceInfo wp stp) = Inr devicep
       \<and> projectInfo wp cwd prismaSchema = Inr projectp"
  then have "Call_JSON_stringify (eventData_of devicep projectp dbProvider eventType)
         \<in> set (calls_made stp
              (snd (sendTelemetryEvent_prisma wp eventType cwd dbProvider prismaSchema stp)))"
    and "\<forall>body. JSON_stringify wp (eventData_of devicep projectp dbProvider eventType) = Inr body \<longrightarrow>
             (\<exists>url. Call_fetch url
                       \<lparr>fetch_method = ''POST'',
                        fetch_headers = [(''Content-Type'', ''application/json'')],
                        fetch_body = body\<rparr>
                \<in> set (calls_made stp
                     (snd (sendTelemetryEvent_prisma wp eventType cwd dbProvider prismaSchema stp))))"
    using prisma_serialises [of stp wp devicep cwd prismaSchema projectp dbProvider eventType]
    by simp_all
  then show "Call_JSON_stringify (eventData_of devicep projectp dbProvider eventType)
         \<in> set (calls_made stp
              (snd (sendTelemetryEvent_prisma wp eventType cwd dbProvider prismaSchema stp)))"
    and "\<forall>body. JSON_stringify wp (eventData_of devicep projectp dbProvider eventType) = Inr body \<longrightarrow>
             (\<exists>url. Call_fetch url
                       \<lparr>fetch_method = ''POST'',
                        fetch_headers = [(''Content-Type'', ''application/json'')],
                        fetch_body = body\<rparr>
                \<in> set (calls_made stp
                     (snd (sendTelemetryEvent_prisma wp eventType cwd dbProvider prismaSchema stp))))"
    by simp_all
qed

text \<open>
  An instance where \<^verbatim>\<open>projectInfo\<close> returns fields called \<^verbatim>\<open>dbProvider\<close> and
  \<^verbatim>\<open>eventType\<close>: the payload either dispatcher sends holds the arguments
  under these keys.
\<close>

theorem call_supplied_fields_take_precedence_witness:
  "calls_made (process_start Map.empty)
     (snd (sendTelemetryEvent_keystone (colliding_world :: listSchemaConfig world)
        ''test-event'' ''path'' (Some ''mydb'') None (process_start Map.empty))) =
     [Call_machineIdSync,
      Call_projectInfo ''path'' None,
      Call_JSON_stringify
        [(''deviceHash'', JStr ''device-hashed''), (''os'', JStr ''keystone-os''),
         (''osVersion'', JStr ''0.0.1''), (''nodeVersion'', JStr ''v14''),
         (''locale'', JNull), (''dbProvider'', JStr ''mydb''),
         (''pathHash'', JStr ''path-hashed''), (''eventType'', JStr ''test-event'')],
      Call_fetch ''https://telemetry.keystonejs.com/v1/event''
        \<lparr>fetch_method = ''POST'',
         fetch_headers = [(''Content-Type'', ''application/json'')],
         fetch_body = ''<json>''\<rparr>]
   \<and> calls_made (process_start Map.empty)
     (snd (sendTelemetryEvent_prisma colliding_world
        ''test-event'' ''path'' (Some ''mydb'') None (process_start Map.empty))) =
     [Call_machineIdSync,
      Call_projectInfo ''path'' None,
      Call_JSON_stringify
        [(''deviceHash'', JStr ''device-hashed''), (''os'', JStr ''keystone-os''),
         (''osVersion'', JStr ''0.0.1''), (''nodeVersion'', JStr ''v14''),
         (''locale'', JNull), (''dbProvider'', JStr ''mydb''),
         (''pathHash'', JStr ''path-hashed''), (''eventType'', JStr ''test-event'')],
      Call_fetch ''https://telemetry.keystonejs.com/event''
        \<lparr>fetch_method = ''POST'',
         fetch_headers = [(''Content-Type'', ''application/json'')],
         fetch_body = ''<json>''\<rparr>]
   \<and> map_of [(''deviceHash'', JStr ''device-hashed''), (''os'', JStr ''keystone-os''),
         (''osVersion'', JStr ''0.0.1''), (''nodeVersion'', JStr ''v14''),
         (''locale'', JNull), (''dbProvider'', JStr ''mydb''),
         (''pathHash'', JStr ''path-hashed''), (''eventType'', JStr ''test-event'')]
        ''dbProvider'' = Some (opt_str (Some ''mydb''))
   \<and> map_of [(''deviceHash'', JStr ''device-hashed''), (''os'', JStr ''keystone-os''),
         (''osVersion'', JStr ''0.0.1''), (''nodeVersion'', JStr ''v14''),
         (''locale'', JNull), (''dbProvider'', JStr ''mydb''),
         (''pathHash'', JStr ''path-hashed''), (''eventType'', JStr ''test-event'')]
        ''eventType'' = Some (JStr ''test-event'')"
proof -
  let ?w = "colliding_world :: listSchemaConfig world"
  let ?wp = "colliding_world :: string world"
  let ?start = "process_start Map.empty :: listSchemaConfig process"
  let ?startp = "process_start Map.empty :: string process"
  let ?dev = "[(''deviceHash'', JStr ''device-hashed''), (''os'', JStr ''keystone-os''),
         (''osVersion'', JStr ''0.0.1''), (''nodeVersion'', JStr ''v14''),
         (''locale'', JNull)]"
  let ?proj = "[(''dbProvider'', JStr ''collected''),
         (''pathHash'', JStr ''path-hashed''),
         (''eventType'', JStr ''collected'')]"
  let ?p = "[(''deviceHash'', JStr ''device-hashed''), (''os'', JStr ''keystone-os''),
         (''osVersion'', JStr ''0.0.1''), (''nodeVersion'', JStr ''v14''),
         (''locale'', JNull), (''dbProvider'', JStr ''mydb''),
         (''pathHash'', JStr ''path-hashed''), (''eventType'', JStr ''test-event'')]"
  have run: "calls_made ?start
     (snd (sendTelemetryEvent_keystone ?w ''test-event'' ''path'' (Some ''mydb'') None ?start)) =
     [Call_machineIdSync,
      Call_projectInfo ''path'' None,
      Call_JSON_stringify ?p,
      Call_fetch ''https://telemetry.keystonejs.com/v1/event''
        \<lparr>fetch_method = ''POST'',
         fetch_headers = [(''Content-Type'', ''application/json'')],
         fetch_body = ''<json>''\<rparr>]"
    by (simp add: keystone_state colliding_world_def sample_defs)
  have runp: "calls_made ?startp
     (snd (sendTelemetryEvent_prisma ?wp ''test-event'' ''path'' (Some ''mydb'') None ?startp)) =
     [Call_machineIdSync,
      Call_projectInfo ''path'' None,
      Call_JSON_stringify ?p,
      Call_fetch ''https://telemetry.keystonejs.com/event''
        \<lparr>fetch_method = ''POST'',
         fetch_headers = [(''Content-Type'', ''application/json'')],
         fetch_body = ''<json>''\<rparr>]"
    by (simp add: prisma_state colliding_world_def sample_defs)
  from run have sent: "Call_JSON_stringify ?p \<in> set (calls_made ?start
     (snd (sendTelemetryEvent_keystone ?w ''test-event'' ''path'' (Some ''mydb'') None ?start)))"
    by simp
  from runp have sentp: "Call_JSON_stringify ?p \<in> set (calls_made ?startp
     (snd (sendTelemetryEvent_prisma ?wp ''test-event'' ''path'' (Some ''mydb'') None ?startp)))"
    by simp
  note inst = call_supplied_fields_take_precedence
    [where w = ?w and st = ?start and p = ?p and eventType = "''test-event''" and cwd = "''path''"
       and dbProvider = "Some ''mydb''" and listsConfig = None
       and device = ?dev and project = ?proj and pp = ?p and wp = ?wp
       and stp = ?startp and prismaSchema = None and devicep = ?dev and projectp = ?proj]
  from inst sent have a: "map_of ?p ''dbProvider'' = Some (opt_str (Some ''mydb''))"
    by blast
  from inst sentp have b: "map_of ?p ''eventType'' = Some (JStr ''test-event'')"
    by blast
  from run runp a b show ?thesis by blast
qed

subsection \<open>The disable state at process start\<close>

text \<open>
  C9. When the preference store is read (\<^verbatim>\<open>new Conf()\<close> and \<^verbatim>\<open>userConfig.get\<close>
  return) and the stored \<^verbatim>\<open>telemetry.disabled\<close> is truthy or
  \<^verbatim>\<open>KEYSTONE_TELEMETRY_DISABLED\<close> is \<^verbatim>\<open>'1'\<close>, the module's top-level statements
  finish and leave \<^verbatim>\<open>KEYSTONE_TELEMETRY_DISABLED\<close>, \<^verbatim>\<open>NEXT_TELEMETRY_DISABLED\<close> and
  \<^verbatim>\<open>CHECKPOINT_DISABLE\<close> all equal to \<^verbatim>\<open>'1'\<close>, and any number of later calls of
  the dispatcher do nothing. When reading the store throws, the import
  throws and the environment is as before. No call of the dispatcher, and
  no sequence of calls, writes the environment.
\<close>

theorem disable_state_resolved_at_start:
  "(truthy userTelemetryDisabled \<or> process_env st ''KEYSTONE_TELEMETRY_DISABLED'' = Some ''1'' \<longrightarrow>
      fst (module_init (Inr userTelemetryDisabled) st) = Inr ()
      \<and> process_env (snd (module_init (Inr userTelemetryDisabled) st))
           ''KEYSTONE_TELEMETRY_DISABLED'' = Some ''1''
      \<and> process_env (snd (module_init (Inr userTelemetryDisabled) st))
           ''NEXT_TELEMETRY_DISABLED'' = Some ''1''
      \<and> process_env (snd (module_init (Inr userTelemetryDisabled) st))
           ''CHECKPOINT_DISABLE'' = Some ''1''
      \<and> sendTelemetryEvents w events (snd (module_init (Inr userTelemetryDisabled) st))
          = snd (module_init (Inr userTelemetryDisabled) st))
   \<and> module_init (Inl e) st = (Inl e, st)
   \<and> process_env (sendTelemetryEvents w events st') = process_env st'
   \<and> process_env (snd (sendTelemetryEvent_keystone w eventType cwd dbProvider listsConfig st'))
       = process_env st'"
proof (intro conjI impI)
  assume a: "truthy userTelemetryDisabled \<or> process_env st ''KEYSTONE_TELEMETRY_DISABLED'' = Some ''1''"
  from module_init_disabled [OF a] show
    "fst (module_init (Inr userTelemetryDisabled) st) = Inr ()"
    and k: "process_env (snd (module_init (Inr userTelemetryDisabled) st))
           ''KEYSTONE_TELEMETRY_DISABLED'' = Some ''1''"
    and "process_env (snd (module_init (Inr userTelemetryDisabled) st))
           ''NEXT_TELEMETRY_DISABLED'' = Some ''1''"
    and "process_env (snd (module_init (Inr userTelemetryDisabled) st))
           ''CHECKPOINT_DISABLE'' = Some ''1''"
    by simp_all
  from k show "sendTelemetryEvents w events (snd (module_init (Inr userTelemetryDisabled) st))
          = snd (module_init (Inr userTelemetryDisabled) st)"
    by (rule events_disabled)
next
  show "module_init (Inl e) st = (Inl e, st)"
    by (simp add: module_init_def)
  show "process_env (sendTelemetryEvents w events st') = process_env st'"
    by (rule events_env)
  show "process_env (snd (sendTelemetryEvent_keystone w eventType cwd dbProvider listsConfig st'))
       = process_env st'"
    by (rule keystone_env)
qed

theorem disable_state_resolved_at_start_witness:
  "fst (module_init (Inr (JBool True)) (process_start Map.empty :: listSchemaConfig process))
     = Inr ()
   \<and> process_env (snd (module_init (Inr (JBool True))
          (process_start Map.empty :: listSchemaConfig process)))
       ''KEYSTONE_TELEMETRY_DISABLED'' = Some ''1''
   \<and> process_env (snd (module_init (Inr (JBool True))
          (process_start Map.empty :: listSchemaConfig process)))
       ''NEXT_TELEMETRY_DISABLED'' = Some ''1''
   \<and> process_env (snd (module_init (Inr (JBool True))
          (process_start Map.empty :: listSchemaConfig process)))
       ''CHECKPOINT_DISABLE'' = Some ''1''
   \<and> calls (sendTelemetryEvents (test_world :: listSchemaConfig world)
        [(''dev'', ''path'', Some ''mydb'', None), (''build'', ''path'', None, None)]
        (snd (module_init (Inr (JBool True)) (process_start Map.empty)))) = []
   \<and> process_env (snd (module_init (Inr JUndefined)
          (process_start [''KEYSTONE_TELEMETRY_DISABLED'' \<mapsto> ''1''] :: listSchemaConfig process)))
       ''NEXT_TELEMETRY_DISABLED'' = Some ''1''"
proof -
  have a: "fst (module_init (Inr (JBool True)) (process_start Map.empty :: listSchemaConfig process))
     = Inr ()
   \<and> process_env (snd (module_init (Inr (JBool True))
          (process_start Map.empty :: listSchemaConfig process)))
       ''KEYSTONE_TELEMETRY_DISABLED'' = Some ''1''
   \<and> process_env (snd (module_init (Inr (JBool True))
          (process_start Map.empty :: listSchemaConfig process)))
       ''NEXT_TELEMETRY_DISABLED'' = Some ''1''
   \<and> process_env (snd (module_init (Inr (JBool True))
          (process_start Map.empty :: listSchemaConfig process)))
       ''CHECKPOINT_DISABLE'' = Some ''1''
   \<and> sendTelemetryEvents (test_world :: listSchemaConfig world)
        [(''dev'', ''path'', Some ''mydb'', None), (''build'', ''path'', None, None)]
        (snd (module_init (Inr (JBool True)) (process_start Map.empty)))
       = snd (module_init (Inr (JBool True)) (process_start Map.empty))"
    using disable_state_resolved_at_start
      [where userTelemetryDisabled = "JBool True"
         and st = "process_start Map.empty :: listSchemaConfig process"
         and w = "test_world :: listSchemaConfig world"
         and events = "[(''dev'', ''path'', Some ''mydb'', None), (''build'', ''path'', None, None)]"
         and e = "Error ''conf''" and st' = "process_start Map.empty"
         and eventType = "''dev''" and cwd = "''path''" and dbProvider = None
         and listsConfig = None]
    by simp
  have b: "process_env (snd (module_init (Inr JUndefined)
          (process_start [''KEYSTONE_TELEMETRY_DISABLED'' \<mapsto> ''1''] :: listSchemaConfig process)))
       ''NEXT_TELEMETRY_DISABLED'' = Some ''1''"
    using disable_state_resolved_at_start
      [where userTelemetryDisabled = "JUndefined"
         and st = "process_start [''KEYSTONE_TELEMETRY_DISABLED'' \<mapsto> ''1'']
                     :: listSchemaConfig process"
         and w = "test_world :: listSchemaConfig world" and events = "[]"
         and e = "Error ''conf''" and st' = "process_start Map.empty"
         and eventType = "''dev''" and cwd = "''path''" and dbProvider = None
         and listsConfig = None]
    by (simp add: process_start_def)
  have c: "calls (snd (module_init (Inr (JBool True))
              (process_start Map.empty :: listSchemaConfig process))) = []"
    by (simp add: module_init_def process_start_def)
  from a b c show ?thesis by simp
qed

text \<open>
  With \<^verbatim>\<open>KEYSTONE_TELEMETRY_DISABLED\<close> equal to \<^verbatim>\<open>'1'\<close> and a preference store
  that cannot be read, \<^verbatim>\<open>new Conf()\<close> (part_000, line 55) throws before lines
  58-67 run: neither downstream variable is set.
\<close>

theorem conf_throws_counterexample:
  "fst (module_init (Inl (Error ''config file is not valid JSON''))
          (process_start [''KEYSTONE_TELEMETRY_DISABLED'' \<mapsto> ''1''] :: listSchemaConfig process))
     = Inl (Error ''config file is not valid JSON'')
   \<and> process_env (snd (module_init (Inl (Error ''config file is not valid JSON''))
          (process_start [''KEYSTONE_TELEMETRY_DISABLED'' \<mapsto> ''1''] :: listSchemaConfig process)))
       ''NEXT_TELEMETRY_DISABLED'' = None
   \<and> process_env (snd (module_init (Inl (Error ''config file is not valid JSON''))
          (process_start [''KEYSTONE_TELEMETRY_DISABLED'' \<mapsto> ''1''] :: listSchemaConfig process)))
       ''CHECKPOINT_DISABLE'' = None"
  by (simp add: module_init_def process_start_def)

subsection \<open>The project field of the legacy dispatcher\<close>

text \<open>
  C10. In the legacy dispatcher (arguments \<open>event, environment, cwd,
  prismaSchema\<close>) the payload's \<^verbatim>\<open>project\<close> field is \<^verbatim>\<open>TELEMETRY_PROJECT\<close>
  verbatim when that variable is a non-empty string, and the hash of \<open>cwd\<close>
  when it is unset or empty. This holds of the object literal, of every
  payload the dispatcher serialises, and the dispatcher does serialise it
  when telemetry is not disabled and \<^verbatim>\<open>machineIdSync\<close> and \<^verbatim>\<open>JSON.stringify\<close>
  return.
\<close>

theorem legacy_project_override:
  "(process_env st ''TELEMETRY_PROJECT'' = Some s \<and> s \<noteq> [] \<longrightarrow>
      map_of (eventData_legacy w (process_env st) event environment cwd prismaSchema device)
        ''project'' = Some (JStr s))
   \<and> (process_env st ''TELEMETRY_PROJECT'' = None \<or> process_env st ''TELEMETRY_PROJECT'' = Some [] \<longrightarrow>
      map_of (eventData_legacy w (process_env st) event environment cwd prismaSchema device)
        ''project'' = Some (JStr (hashText w cwd)))
   \<and> (Call_JSON_stringify p \<in> set (calls_made st
         (snd (sendTelemetryEvent_legacy w event environment cwd prismaSchema st))) \<longrightarrow>
       map_of p ''project'' =
         Some (JStr (case process_env st ''TELEMETRY_PROJECT'' of
                       None \<Rightarrow> hashText w cwd
                     | Some s \<Rightarrow> if s = [] then hashText w cwd else s)))
   \<and> (process_env st ''TELEMETRY_DISABLED'' \<noteq> Some ''true''
       \<and> machineIdSync w = Inr device
       \<and> JSON_stringify w
            (eventData_legacy w (process_env st) event environment cwd prismaSchema device)
           = Inr body \<longrightarrow>
       Call_JSON_stringify
         (eventData_legacy w (process_env st) event environment cwd prismaSchema device)
         \<in> set (calls_made st
              (snd (sendTelemetryEvent_legacy w event environment cwd prismaSchema st))))"
proof (intro conjI impI)
  assume "process_env st ''TELEMETRY_PROJECT'' = Some s \<and> s \<noteq> []"
  then show "map_of (eventData_legacy w (process_env st) event environment cwd prismaSchema device)
        ''project'' = Some (JStr s)"
    by (simp add: legacy_project)
next
  assume "process_env st ''TELEMETRY_PROJECT'' = None \<or> process_env st ''TELEMETRY_PROJECT'' = Some []"
  then show "map_of (eventData_legacy w (process_env st) event environment cwd prismaSchema device)
        ''project'' = Some (JStr (hashText w cwd))"
    by (auto simp: legacy_project)
next
  assume "Call_JSON_stringify p \<in> set (calls_made st
         (snd (sendTelemetryEvent_legacy w event environment cwd prismaSchema st)))"
  then obtain d where
    "p = eventData_legacy w (process_env st) event environment cwd prismaSchema d"
    using legacy_payload by blast
  then show "map_of p ''project'' =
         Some (JStr (case process_env st ''TELEMETRY_PROJECT'' of
                       None \<Rightarrow> hashText w cwd
                     | Some s \<Rightarrow> if s = [] then hashText w cwd else s))"
    by (simp add: legacy_project)
next
  assume "process_env st ''TELEMETRY_DISABLED'' \<noteq> Some ''true''
       \<and> machineIdSync w = Inr device
       \<and> JSON_stringify w
            (eventData_legacy w (process_env st) event environment cwd prismaSchema device)
           = Inr body"
  then show "Call_JSON_stringify
         (eventData_legacy w (process_env st) event environment cwd prismaSchema device)
         \<in> set (calls_made st
              (snd (sendTelemetryEvent_legacy w event environment cwd prismaSchema st)))"
    by (simp add: legacy_sends)
qed

theorem legacy_project_override_witness:
  "map_of (eventData_legacy (test_world :: listSchemaConfig world)
        [''TELEMETRY_PROJECT'' \<mapsto> ''my-project''] ''test-event'' ''development''
        ''/home/alice/app'' None ''device-hashed'') ''project'' = Some (JStr ''my-project'')
   \<and> map_of (eventData_legacy (test_world :: listSchemaConfig world)
        Map.empty ''test-event'' ''development''
        ''/home/alice/app'' None ''device-hashed'') ''project''
       = Some (JStr ''/home/alice/app-hashed'')
   \<and> Call_JSON_stringify
        [(''device'', JStr ''device-hashed''),
         (''project'', JStr ''my-project''),
         (''schema'', JUndefined),
         (''keystoneVersion'', JUndefined),
         (''environment'', JStr ''development''),
         (''os'', JStr ''keystone-os''),
         (''osLanguage'', JUndefined),
         (''event'', JStr ''test-event'')]
       \<in> set (calls_made (process_start [''TELEMETRY_PROJECT'' \<mapsto> ''my-project''])
            (snd (sendTelemetryEvent_legacy (test_world :: listSchemaConfig world)
               ''test-event'' ''development'' ''/home/alice/app'' None
               (process_start [''TELEMETRY_PROJECT'' \<mapsto> ''my-project'']))))"
proof -
  let ?w = "test_world :: listSchemaConfig world"
  let ?st = "process_start [''TELEMETRY_PROJECT'' \<mapsto> ''my-project''] :: listSchemaConfig process"
  let ?empty = "process_start Map.empty :: listSchemaConfig process"
  have env: "process_env ?st = [''TELEMETRY_PROJECT'' \<mapsto> ''my-project'']"
    and env0: "process_env ?empty = Map.empty"
    by (simp_all add: process_start_def)
  have a: "map_of (eventData_legacy ?w (process_env ?st) ''test-event'' ''development''
        ''/home/alice/app'' None ''device-hashed'') ''project'' = Some (JStr ''my-project'')"
    using legacy_project_override
      [where st = ?st and s = "''my-project''" and w = ?w and event = "''test-event''"
         and environment = "''development''" and cwd = "''/home/alice/app''"
         and prismaSchema = None and device = "''device-hashed''" and p = "[]"
         and body = "''<json>''"]
    by (simp add: process_start_def)
  have b: "map_of (eventData_legacy ?w (process_env ?empty) ''test-event'' ''development''
        ''/home/alice/app'' None ''device-hashed'') ''project''
       = Some (JStr ''/home/alice/app-hashed'')"
    using legacy_project_override
      [where st = ?empty and s = "''my-project''" and w = ?w and event = "''test-event''"
         and environment = "''development''" and cwd = "''/home/alice/app''"
         and prismaSchema = None and device = "''device-hashed''" and p = "[]"
         and body = "''<json>''"]
    by (simp add: process_start_def hashText_def test_world_def)
  have c: "Call_JSON_stringify
        (eventData_legacy ?w (process_env ?st) ''test-event'' ''development''
           ''/home/alice/app'' None ''device-hashed'')
       \<in> set (calls_made ?st
            (snd (sendTelemetryEvent_legacy ?w
               ''test-event'' ''development'' ''/home/alice/app'' None ?st)))"
    using legacy_project_override
      [where st = ?st and s = "''my-project''" and w = ?w and event = "''test-event''"
         and environment = "''development''" and cwd = "''/home/alice/app''"
         and prismaSchema = None and device = "''device-hashed''" and p = "[]"
         and body = "''<json>''"]
    by (simp add: process_start_def test_world_def)
  have d: "eventData_legacy ?w [''TELEMETRY_PROJECT'' \<mapsto> ''my-project''] ''test-event''
             ''development'' ''/home/alice/app'' None ''device-hashed'' =
        [(''device'', JStr ''device-hashed''),
         (''project'', JStr ''my-project''),
         (''schema'', JUndefined),
         (''keystoneVersion'', JUndefined),
         (''environment'', JStr ''development''),
         (''os'', JStr ''keystone-os''),
         (''osLanguage'', JUndefined),
         (''event'', JStr ''test-event'')]"
    by (simp add: eventData_legacy_def test_world_def js_or_default_def js_or_def opt_str_def)
  from a b c show ?thesis
    unfolding env env0 d by simp
qed

section \<open>Properties of the modelled projectInfo\<close>

lemma strip_newline_append [simp]:
  "strip_trailing_newline (s @ [CHR 0x0A]) = strip_trailing_newline s"
  by (simp add: strip_trailing_newline_def)

lemma strip_newline_keeps:
  "s = [] \<or> last s \<noteq> CHR 0x0A \<Longrightarrow> strip_trailing_newline s = s"
  by (cases s rule: rev_cases) (auto simp: strip_trailing_newline_def)

lemma strip_newline_empty [simp]: "strip_trailing_newline [] = []"
  by (simp add: strip_trailing_newline_def)

lemma normalize_newline:
  "normalizeGitOrigin (out @ [CHR 0x0A]) = normalizeGitOrigin out"
  by (simp add: normalizeGitOrigin_def)

lemma gitOriginHash_newline:
  "gitOriginHash_of w (Inr (out @ [CHR 0x0A])) = gitOriginHash_of w (Inr out)"
  by (simp add: gitOriginHash_of_def normalize_newline)

lemma takeWhile_upto:
  "c \<notin> set xs \<Longrightarrow> takeWhile (\<lambda>x. x \<noteq> c) (xs @ c # rest) = xs"
  by (induction xs) auto

lemma dropWhile_upto:
  "c \<notin> set xs \<Longrightarrow> dropWhile (\<lambda>x. x \<noteq> c) (xs @ c # rest) = c # rest"
  by (induction xs) auto

lemma ssh_path_host:
  "CHR '':'' \<notin> set host \<Longrightarrow> ssh_path (host @ CHR '':'' # path) = host @ CHR ''/'' # path"
  by (simp add: ssh_path_def takeWhile_upto dropWhile_upto)

lemma strip_user_none:
  "CHR ''@'' \<notin> set host \<Longrightarrow> CHR ''/'' \<notin> set host \<Longrightarrow>
     strip_user (host @ CHR ''/'' # path) = host @ CHR ''/'' # path"
  by (simp add: strip_user_def takeWhile_upto)

lemma strip_user_some:
  assumes "CHR ''@'' \<notin> set user" and "CHR ''/'' \<notin> set user"
    and "CHR ''@'' \<notin> set host" and "CHR ''/'' \<notin> set host"
  shows "strip_user (user @ CHR ''@'' # host @ CHR ''/'' # path) = host @ CHR ''/'' # path"
proof -
  from assms have "CHR ''/'' \<notin> set (user @ CHR ''@'' # host)" by simp
  then have "takeWhile (\<lambda>c. c \<noteq> CHR ''/'') ((user @ CHR ''@'' # host) @ CHR ''/'' # path)
               = user @ CHR ''@'' # host"
    by (rule takeWhile_upto)
  then have tw: "takeWhile (\<lambda>c. c \<noteq> CHR ''/'') (user @ CHR ''@'' # host @ CHR ''/'' # path)
               = user @ CHR ''@'' # host"
    by simp
  from assms(1) have dw: "dropWhile (\<lambda>c. c \<noteq> CHR ''@'') (user @ CHR ''@'' # host @ CHR ''/'' # path)
               = CHR ''@'' # host @ CHR ''/'' # path"
    by (rule dropWhile_upto)
  show ?thesis
    unfolding strip_user_def tw dw by simp
qed

lemma keep_when_path_ok:
  assumes "path = [] \<or> last path \<noteq> CHR 0x0A" and "sep \<noteq> CHR 0x0A"
  shows "strip_trailing_newline (pre @ sep # path) = pre @ sep # path"
  using assms by (intro strip_newline_keeps) auto

lemma normalize_git:
  "strip_trailing_newline raw = ''git@'' @ r \<Longrightarrow> normalizeGitOrigin raw = ssh_path r"
  by (simp add: normalizeGitOrigin_def drop_prefix_def)

lemma normalize_https:
  "strip_trailing_newline raw = ''https://'' @ r \<Longrightarrow> normalizeGitOrigin raw = strip_user r"
  by (simp add: normalizeGitOrigin_def drop_prefix_def)

lemma normalize_http:
  "strip_trailing_newline raw = ''http://'' @ r \<Longrightarrow> normalizeGitOrigin raw = strip_user r"
  by (simp add: normalizeGitOrigin_def drop_prefix_def)

lemma normalize_each:
  assumes "well_formed_remote user host path"
  shows "normalizeGitOrigin (''git@'' @ host @ '':'' @ path) = host @ ''/'' @ path"
    and "normalizeGitOrigin (''https://'' @ host @ ''/'' @ path) = host @ ''/'' @ path"
    and "normalizeGitOrigin (''http://'' @ host @ ''/'' @ path) = host @ ''/'' @ path"
    and "normalizeGitOrigin (''https://'' @ user @ ''@'' @ host @ ''/'' @ path)
           = host @ ''/'' @ path"
proof -
  from assms have h: "CHR ''@'' \<notin> set host" "CHR ''/'' \<notin> set host" "CHR '':'' \<notin> set host"
    and u: "CHR ''@'' \<notin> set user" "CHR ''/'' \<notin> set user"
    and path: "path = [] \<or> last path \<noteq> CHR 0x0A"
    by (simp_all add: well_formed_remote_def)
  from h have sp: "ssh_path (host @ CHR '':'' # path) = host @ ''/'' @ path"
    by (simp add: ssh_path_host)
  from h have su: "strip_user (host @ CHR ''/'' # path) = host @ ''/'' @ path"
    by (simp add: strip_user_none)
  from u h have suu: "strip_user (user @ CHR ''@'' # host @ CHR ''/'' # path) = host @ ''/'' @ path"
    by (simp add: strip_user_some)
  have k0: "strip_trailing_newline (''git@'' @ host @ '':'' @ path)
              = ''git@'' @ (host @ CHR '':'' # path)"
    using keep_when_path_ok [OF path, of "CHR '':''" "''git@'' @ host"] by simp
  have k1: "strip_trailing_newline (''https://'' @ host @ ''/'' @ path)
              = ''https://'' @ (host @ CHR ''/'' # path)"
    using keep_when_path_ok [OF path, of "CHR ''/''" "''https://'' @ host"] by simp
  have k2: "strip_trailing_newline (''http://'' @ host @ ''/'' @ path)
              = ''http://'' @ (host @ CHR ''/'' # path)"
    using keep_when_path_ok [OF path, of "CHR ''/''" "''http://'' @ host"] by simp
  have k3: "strip_trailing_newline (''https://'' @ user @ ''@'' @ host @ ''/'' @ path)
              = ''https://'' @ (user @ CHR ''@'' # host @ CHR ''/'' # path)"
    using keep_when_path_ok [OF path, of "CHR ''/''" "''https://'' @ user @ ''@'' @ host"] by simp
  show "normalizeGitOrigin (''git@'' @ host @ '':'' @ path) = host @ ''/'' @ path"
    using normalize_git [OF k0] sp by simp
  show "normalizeGitOrigin (''https://'' @ host @ ''/'' @ path) = host @ ''/'' @ path"
    using normalize_https [OF k1] su by simp
  show "normalizeGitOrigin (''http://'' @ host @ ''/'' @ path) = host @ ''/'' @ path"
    using normalize_http [OF k2] su by simp
  show "normalizeGitOrigin (''https://'' @ user @ ''@'' @ host @ ''/'' @ path)
           = host @ ''/'' @ path"
    using normalize_https [OF k3] suu by simp
qed

lemma normalize_forms:
  assumes "well_formed_remote user host path" and "raw \<in> set (remote_forms user host path)"
  shows "normalizeGitOrigin raw = host @ ''/'' @ path"
  using assms(2) normalize_each [OF assms(1)]
  by (auto simp: remote_forms_def)

lemma forms_not_blank:
  assumes "well_formed_remote user host path" and "raw \<in> set (remote_forms user host path)"
  shows "strip_trailing_newline raw \<noteq> []"
proof -
  from assms(1) have path: "path = [] \<or> last path \<noteq> CHR 0x0A"
    by (simp add: well_formed_remote_def)
  have "strip_trailing_newline raw = raw"
    using assms(2) path
    by (intro strip_newline_keeps) (auto simp: remote_forms_def split: if_splits)
  moreover from assms(2) have "raw \<noteq> []" by (auto simp: remote_forms_def)
  ultimately show ?thesis by simp
qed

lemma gitOriginHash_forms:
  assumes "well_formed_remote user host path" and "raw \<in> set (remote_forms user host path)"
  shows "gitOriginHash_of w (Inr raw) = JStr (sha256_hex w (host @ ''/'' @ path))"
  using forms_not_blank [OF assms] normalize_forms [OF assms]
  by (simp add: gitOriginHash_of_def)



text \<open>
  The model gives what the repository's test of \<^verbatim>\<open>projectInfo\<close> expects
  (index.ts, lines 355-383, with the hash mocked as in line 265), and the
  \<^verbatim>\<open>origin-hashed\<close> of line 223 for the output \<^verbatim>\<open>git@origin\<close>.
\<close>

lemma projectInfo_spec_test_vectors:
  "normalizeGitOrigin ''git@github.com:keystone/keystone.git'' = ''github.com/keystone/keystone.git''
   \<and> normalizeGitOrigin ''https://github.com/keystone/keystone.git''
       = ''github.com/keystone/keystone.git''
   \<and> normalizeGitOrigin ''http://github.com/keystone/keystone.git''
       = ''github.com/keystone/keystone.git''
   \<and> normalizeGitOrigin ''https://username@github.com/keystone/keystone.git''
       = ''github.com/keystone/keystone.git''
   \<and> normalizeGitOrigin (''git@github.com:keystone/keystone.git'' @ [CHR 0x0A])
       = ''github.com/keystone/keystone.git''
   \<and> projectInfo_spec (test_world :: listSchemaConfig world) ''path''
       = [(''gitOriginHash'', JStr ''origin-hashed''), (''pathHash'', JStr ''path-hashed'')]
   \<and> projectInfo_spec ((test_world :: listSchemaConfig world)\<lparr>execSync_git := (\<lambda>cwd. Inr [])\<rparr>)
         ''path''
       = [(''gitOriginHash'', JNull), (''pathHash'', JStr ''path-hashed'')]"
  by (simp add: normalizeGitOrigin_def strip_trailing_newline_def drop_prefix_def ssh_path_def
        strip_user_def projectInfo_spec_def gitOriginHash_of_def test_world_def)

text \<open>
  C4. For a host without \<^verbatim>\<open>@\<close>, \<^verbatim>\<open>:\<close>, \<^verbatim>\<open>/\<close> or newline, a user name without
  \<^verbatim>\<open>@\<close> or \<^verbatim>\<open>/\<close> and a path that does not end in a newline, each of the four
  forms normalises to \<open>host/path\<close> and is hashed as such, so the modelled
  \<^verbatim>\<open>projectInfo\<close> gives the same \<^verbatim>\<open>gitOriginHash\<close> for all of them. For any
  output of the git command whatever, a newline appended to it changes
  neither the normalised string nor the field. Empty output and a failing
  command give null; so does, by the second statement, output that is a
  lone newline.
\<close>

theorem git_origin_forms_hash_alike:
  "(well_formed_remote user host path \<and> raw \<in> set (remote_forms user host path) \<longrightarrow>
      normalizeGitOrigin raw = host @ ''/'' @ path
      \<and> gitOriginHash_of w (Inr raw) = JStr (sha256_hex w (host @ ''/'' @ path)))
   \<and> normalizeGitOrigin (out @ [CHR 0x0A]) = normalizeGitOrigin out
   \<and> gitOriginHash_of w (Inr (out @ [CHR 0x0A])) = gitOriginHash_of w (Inr out)
   \<and> gitOriginHash_of w (Inr []) = JNull
   \<and> gitOriginHash_of w (Inl e) = JNull
   \<and> map_of (projectInfo_spec w cwd) ''gitOriginHash''
       = Some (gitOriginHash_of w (execSync_git w cwd))"
proof (intro conjI impI)
  assume "well_formed_remote user host path \<and> raw \<in> set (remote_forms user host path)"
  then have wf: "well_formed_remote user host path"
    and form: "raw \<in> set (remote_forms user host path)"
    by simp_all
  show "normalizeGitOrigin raw = host @ ''/'' @ path"
    by (rule normalize_forms [OF wf form])
  show "gitOriginHash_of w (Inr raw) = JStr (sha256_hex w (host @ ''/'' @ path))"
    by (rule gitOriginHash_forms [OF wf form])
next
  show "normalizeGitOrigin (out @ [CHR 0x0A]) = normalizeGitOrigin out"
    by (rule normalize_newline)
  show "gitOriginHash_of w (Inr (out @ [CHR 0x0A])) = gitOriginHash_of w (Inr out)"
    by (rule gitOriginHash_newline)
  show "gitOriginHash_of w (Inr []) = JNull"
    by (simp add: gitOriginHash_of_def)
  show "gitOriginHash_of w (Inl e) = JNull"
    by (simp add: gitOriginHash_of_def)
  show "map_of (projectInfo_spec w cwd) ''gitOriginHash''
       = Some (gitOriginHash_of w (execSync_git w cwd))"
    by (simp add: projectInfo_spec_def)
qed

theorem git_origin_forms_hash_alike_witness:
  "well_formed_remote ''username'' ''github.com'' ''keystone/keystone.git''
   \<and> remote_forms ''username'' ''github.com'' ''keystone/keystone.git''
       = [''git@github.com:keystone/keystone.git'',
          ''https://github.com/keystone/keystone.git'',
          ''http://github.com/keystone/keystone.git'',
          ''https://username@github.com/keystone/keystone.git'']
   \<and> normalizeGitOrigin ''https://username@github.com/keystone/keystone.git''
       = ''github.com/keystone/keystone.git''
   \<and> gitOriginHash_of (test_world :: listSchemaConfig world)
         (Inr ''https://username@github.com/keystone/keystone.git'')
       = JStr ''github.com/keystone/keystone.git-hashed''
   \<and> gitOriginHash_of (test_world :: listSchemaConfig world)
         (Inr (''git@github.com:keystone/keystone.git'' @ [CHR 0x0A]))
       = gitOriginHash_of (test_world :: listSchemaConfig world)
           (Inr ''git@github.com:keystone/keystone.git'')
   \<and> gitOriginHash_of (test_world :: listSchemaConfig world) (Inr [CHR 0x0A]) = JNull"
proof -
  let ?w = "test_world :: listSchemaConfig world"
  have wf: "well_formed_remote ''username'' ''github.com'' ''keystone/keystone.git''"
    by (simp add: well_formed_remote_def)
  have forms: "remote_forms ''username'' ''github.com'' ''keystone/keystone.git''
       = [''git@github.com:keystone/keystone.git'',
          ''https://github.com/keystone/keystone.git'',
          ''http://github.com/keystone/keystone.git'',
          ''https://username@github.com/keystone/keystone.git'']"
    by (simp add: remote_forms_def)
  then have form: "''https://username@github.com/keystone/keystone.git''
       \<in> set (remote_forms ''username'' ''github.com'' ''keystone/keystone.git'')"
    by simp
  from git_origin_forms_hash_alike
    [where user = "''username''" and host = "''github.com''" and path = "''keystone/keystone.git''"
       and raw = "''https://username@github.com/keystone/keystone.git''" and w = ?w
       and out = "''git@github.com:keystone/keystone.git''" and e = "Error ''git''"
       and cwd = "''path''"] wf form
  have a: "normalizeGitOrigin ''https://username@github.com/keystone/keystone.git''
       = ''github.com/keystone/keystone.git''
   \<and> gitOriginHash_of ?w (Inr ''https://username@github.com/keystone/keystone.git'')
       = JStr ''github.com/keystone/keystone.git-hashed''
   \<and> gitOriginHash_of ?w (Inr (''git@github.com:keystone/keystone.git'' @ [CHR 0x0A]))
       = gitOriginHash_of ?w (Inr ''git@github.com:keystone/keystone.git'')"
    by (simp add: test_world_def)
  from git_origin_forms_hash_alike
    [where user = "''username''" and host = "''github.com''" and path = "''keystone/keystone.git''"
       and raw = "''https://username@github.com/keystone/keystone.git''" and w = ?w
       and out = "[]" and e = "Error ''git''" and cwd = "''path''"]
  have b: "gitOriginHash_of ?w (Inr [CHR 0x0A]) = JNull"
    by simp
  from wf forms a b show ?thesis by blast
qed

section \<open>Hashed fields of the payload\<close>









end
